theory Spec2Isabelle
  imports Complex_Main "HOL-Library.Sublist"
begin

section \<open>Strings and arrays of the host language\<close>

text \<open>
  A source string is a sequence of UTF-16 code units; \<open>length\<close>, \<open>substring\<close>,
  \<open>endsWith\<close> and \<open>includes\<close> all count code units. A \<^typ>\<open>char\<close> stands for one
  code unit here. Numbers that the source only counts with or prints are integers.
\<close>

definition startsWith :: "string \<Rightarrow> string \<Rightarrow> bool" where
  "startsWith s p = (take (length p) s = p)"

definition endsWith :: "string \<Rightarrow> string \<Rightarrow> bool" where
  "endsWith s p = (length p \<le> length s \<and> drop (length s - length p) s = p)"

text \<open>\<open>s.substring(a, b)\<close>: negative arguments count as 0, arguments beyond the
  length count as the length, and the two are swapped when \<open>a > b\<close>.\<close>

definition substring :: "string \<Rightarrow> int \<Rightarrow> int \<Rightarrow> string" where
  "substring s a b =
     (let n = int (length s);
          a' = max 0 (min a n);
          b' = max 0 (min b n);
          lo = min a' b';
          hi = max a' b'
      in take (nat (hi - lo)) (drop (nat lo) s))"

text \<open>\<open>xs.slice(-k)\<close>: the last \<open>k\<close> elements, all of them when there are fewer.\<close>

definition sliceLast :: "nat \<Rightarrow> 'a list \<Rightarrow> 'a list" where
  "sliceLast k xs = drop (length xs - k) xs"

text \<open>\<open>xs.join(sep)\<close>.\<close>

fun join :: "string \<Rightarrow> string list \<Rightarrow> string" where
  "join sep [] = []"
| "join sep [x] = x"
| "join sep (x # y # ys) = x @ sep @ join sep (y # ys)"

text \<open>\<open>s.split(c)\<close> for a one-character separator: always at least one piece.\<close>

fun split :: "char \<Rightarrow> string \<Rightarrow> string list" where
  "split c [] = [[]]"
| "split c (x # xs) =
     (if x = c then [] # split c xs
      else (case split c xs of
              [] \<Rightarrow> [[x]]
            | p # ps \<Rightarrow> (x # p) # ps))"

text \<open>\<open>s.lastIndexOf(c)\<close>: \<open>-1\<close> when the character does not occur.\<close>

fun lastIndexFrom :: "char \<Rightarrow> string \<Rightarrow> int \<Rightarrow> int \<Rightarrow> int" where
  "lastIndexFrom c [] i found = found"
| "lastIndexFrom c (x # xs) i found =
     lastIndexFrom c xs (i + 1) (if x = c then i else found)"

definition lastIndexOf :: "string \<Rightarrow> char \<Rightarrow> int" where
  "lastIndexOf s c = lastIndexFrom c s 0 (- 1)"

text \<open>\<open>s.includes(t)\<close>: \<open>t\<close> occurs in \<open>s\<close> as a contiguous run.\<close>

fun includesStr :: "string \<Rightarrow> string \<Rightarrow> bool" where
  "includesStr [] t = (t = [])"
| "includesStr (x # xs) t = (startsWith (x # xs) t \<or> includesStr xs t)"

text \<open>Decimal rendering of a number inside a template string.\<close>

definition digitChar :: "nat \<Rightarrow> char" where
  "digitChar d = char_of (48 + d)"

fun showNat :: "nat \<Rightarrow> string" where
  "showNat n = (if n < 10 then [digitChar n] else showNat (n div 10) @ [digitChar (n mod 10)])"

definition showInt :: "int \<Rightarrow> string" where
  "showInt i = (if i < 0 then CHR ''-'' # showNat (nat (- i)) else showNat (nat i))"

text \<open>A string is truthy when it is not empty; an absent one is falsy.\<close>

definition truthyStr :: "string option \<Rightarrow> bool" where
  "truthyStr s = (case s of None \<Rightarrow> False | Some t \<Rightarrow> t \<noteq> [])"

text \<open>\<open>a || b\<close> on an optional string \<open>a\<close>.\<close>

definition strOr :: "string option \<Rightarrow> string \<Rightarrow> string" where
  "strOr a b = (case a of None \<Rightarrow> b | Some t \<Rightarrow> if t \<noteq> [] then t else b)"

text \<open>A \<open>Set\<close> iterates in insertion order; adding a member again changes nothing.\<close>

definition setAdd :: "'a list \<Rightarrow> 'a \<Rightarrow> 'a list" where
  "setAdd s x = (if x \<in> set s then s else s @ [x])"

definition toSet :: "'a list \<Rightarrow> 'a list" where
  "toSet xs = foldl setAdd [] xs"

section \<open>Conversation memory\<close>

subsection \<open>Data model (types/conversation)\<close>

datatype role = User | Assistant

datatype fileAction = Created | Modified | Deleted

record AppliedFile =
  af_path :: string
  af_action :: fileAction
  af_size :: int
  af_componentName :: "string option"

record Metadata =
  md_sandboxId :: "string option"
  md_generatedCode :: "string option"
  md_appliedFiles :: "AppliedFile list option"
  md_actionSummary :: "string option"
  md_fileCount :: "int option"
  md_componentCount :: "int option"
  md_addedPackages :: "string list option"

record ConversationMessage =
  msg_id :: string
  msg_role :: role
  msg_content :: string
  msg_timestamp :: int
  msg_metadata :: "Metadata option"

record SessionSummary =
  totalInteractions :: nat
  filesCreated :: "string list"
  filesModified :: "string list"
  packagesAdded :: "string list"
  componentsCreated :: "string list"
  lastActionSummary :: "string option"

record MajorChange =
  mc_timestamp :: int
  mc_description :: string
  mc_filesAffected :: "string list"

record ConversationContext =
  messages :: "ConversationMessage list"
  currentTopic :: "string option"
  majorChanges :: "MajorChange list"
  sessionSummary :: "SessionSummary option"

record ConversationState =
  conversationId :: string
  startedAt :: int
  lastUpdated :: int
  cs_context :: ConversationContext

text \<open>The optional third argument of \<open>updateConversationMemory\<close>.\<close>

record AiResponse =
  ar_generatedCode :: "string option"
  ar_appliedFiles :: "AppliedFile list option"
  ar_actionSummary :: "string option"
  ar_fileCount :: "int option"
  ar_componentCount :: "int option"
  ar_packagesToInstall :: "string list option"

subsection \<open>updateSessionSummary\<close>

definition emptySummary :: SessionSummary where
  "emptySummary = \<lparr> totalInteractions = 0, filesCreated = [], filesModified = [],
     packagesAdded = [], componentsCreated = [], lastActionSummary = None \<rparr>"

text \<open>The body of the \<open>forEach\<close> over the applied files.\<close>

definition applyFile :: "SessionSummary \<Rightarrow> AppliedFile \<Rightarrow> SessionSummary" where
  "applyFile summary file =
     (let fileName = af_path file in
      if af_action file = Created \<and> fileName \<notin> set (filesCreated summary) then
        (let s1 = summary\<lparr> filesCreated := filesCreated summary @ [fileName] \<rparr> in
         case af_componentName file of
           None \<Rightarrow> s1
         | Some cn \<Rightarrow>
             if cn \<noteq> [] \<and> cn \<notin> set (componentsCreated s1)
             then s1\<lparr> componentsCreated := componentsCreated s1 @ [cn] \<rparr>
             else s1)
      else if af_action file = Modified \<and> fileName \<notin> set (filesModified summary) then
        summary\<lparr> filesModified := filesModified summary @ [fileName] \<rparr>
      else summary)"

text \<open>The body of the \<open>forEach\<close> over the packages to install.\<close>

definition applyPackage :: "SessionSummary \<Rightarrow> string \<Rightarrow> SessionSummary" where
  "applyPackage summary pkg =
     (if pkg \<notin> set (packagesAdded summary)
      then summary\<lparr> packagesAdded := packagesAdded summary @ [pkg] \<rparr>
      else summary)"

definition updateSessionSummary :: "SessionSummary option \<Rightarrow> AiResponse \<Rightarrow> SessionSummary" where
  "updateSessionSummary cur aiResponse =
     (let s0 = (case cur of None \<Rightarrow> emptySummary | Some s \<Rightarrow> s);
          s1 = s0\<lparr> totalInteractions := totalInteractions s0 + 1,
                   lastActionSummary := ar_actionSummary aiResponse \<rparr>;
          s2 = (case ar_appliedFiles aiResponse of
                  None \<Rightarrow> s1
                | Some fs \<Rightarrow> foldl applyFile s1 fs)
      in case ar_packagesToInstall aiResponse of
           None \<Rightarrow> s2
         | Some ps \<Rightarrow> foldl applyPackage s2 ps)"

subsection \<open>updateConversationMemory\<close>

text \<open>The three readings of the clock that one call takes: for the id of the assistant
  message, for its timestamp, and for \<open>lastUpdated\<close>.\<close>

record Clock3 =
  nowId :: int
  nowStamp :: int
  nowUpdated :: int

definition mkAiMessage :: "Clock3 \<Rightarrow> AiResponse \<Rightarrow> ConversationMessage" where
  "mkAiMessage clk aiResponse =
     \<lparr> msg_id = ''ai-'' @ showInt (nowId clk),
       msg_role = Assistant,
       msg_content = strOr (ar_actionSummary aiResponse) ''Generated code response'',
       msg_timestamp = nowStamp clk,
       msg_metadata = Some \<lparr> md_sandboxId = None,
                              md_generatedCode = ar_generatedCode aiResponse,
                              md_appliedFiles = ar_appliedFiles aiResponse,
                              md_actionSummary = ar_actionSummary aiResponse,
                              md_fileCount = ar_fileCount aiResponse,
                              md_componentCount = ar_componentCount aiResponse,
                              md_addedPackages = ar_packagesToInstall aiResponse \<rparr> \<rparr>"

text \<open>The clean-up of old messages, as written at the end of
  \<open>updateConversationMemory\<close> and again at the start of a generation request.\<close>

definition trimMessages :: "ConversationMessage list \<Rightarrow> ConversationMessage list" where
  "trimMessages ms = (if length ms > 20 then sliceLast 15 ms else ms)"

text \<open>The log as it stands after the pushes of one call and before the clean-up.\<close>

definition pushed ::
  "Clock3 \<Rightarrow> ConversationMessage list \<Rightarrow> ConversationMessage \<Rightarrow> AiResponse option
     \<Rightarrow> ConversationMessage list" where
  "pushed clk ms userMessage aiResponse =
     (case aiResponse of
        None \<Rightarrow> ms @ [userMessage]
      | Some r \<Rightarrow> (ms @ [userMessage]) @ [mkAiMessage clk r])"

definition updateConversationMemory ::
  "Clock3 \<Rightarrow> ConversationState \<Rightarrow> ConversationMessage \<Rightarrow> AiResponse option
     \<Rightarrow> ConversationState" where
  "updateConversationMemory clk conversationState userMessage aiResponse =
     (let ctx = cs_context conversationState;
          ctx1 = ctx\<lparr> messages := pushed clk (messages ctx) userMessage aiResponse \<rparr>;
          ctx2 = (case aiResponse of
                    None \<Rightarrow> ctx1
                  | Some r \<Rightarrow>
                      ctx1\<lparr> sessionSummary := Some (updateSessionSummary (sessionSummary ctx1) r) \<rparr>);
          ctx3 = ctx2\<lparr> messages := trimMessages (messages ctx2) \<rparr>
      in conversationState\<lparr> cs_context := ctx3, lastUpdated := nowUpdated clk \<rparr>)"

text \<open>The trimming at the start of the generation route (\<open>POST\<close>), on the
  process-wide state.\<close>

definition trimAtRequestStart :: "ConversationState \<Rightarrow> ConversationState" where
  "trimAtRequestStart st =
     st\<lparr> cs_context := (cs_context st)\<lparr> messages := trimMessages (messages (cs_context st)) \<rparr> \<rparr>"

text \<open>A sequence of calls, applied one after the other to the same state.\<close>

type_synonym call = "Clock3 \<times> ConversationMessage \<times> AiResponse option"

definition callStep :: "ConversationState \<Rightarrow> call \<Rightarrow> ConversationState" where
  "callStep st c = (case c of (clk, u, r) \<Rightarrow> updateConversationMemory clk st u r)"

definition runCalls :: "ConversationState \<Rightarrow> call list \<Rightarrow> ConversationState" where
  "runCalls st cs = foldl callStep st cs"

text \<open>The counters of a state; a state that has no summary yet has processed nothing.\<close>

definition summaryOf :: "ConversationState \<Rightarrow> SessionSummary" where
  "summaryOf st = (case sessionSummary (cs_context st) of None \<Rightarrow> emptySummary | Some s \<Rightarrow> s)"

definition aiCalls :: "call list \<Rightarrow> nat" where
  "aiCalls cs = length (filter (\<lambda>c. snd (snd c) \<noteq> None) cs)"

subsection \<open>getRecentInteractions\<close>

record Interaction =
  userMessage :: ConversationMessage
  aiMessage :: "ConversationMessage option"

text \<open>The loop runs over the log from its last message to its first; \<open>rest\<close> is what
  remains to be visited, most recent first. \<open>interactions.unshift\<close> puts a pair in
  front; \<open>pending\<close> is the variable \<open>userMessage\<close> of the source.\<close>

fun recentLoop ::
  "nat \<Rightarrow> ConversationMessage list \<Rightarrow> Interaction list \<Rightarrow> ConversationMessage option
     \<Rightarrow> Interaction list \<times> ConversationMessage option" where
  "recentLoop maxCount [] interactions pending = (interactions, pending)"
| "recentLoop maxCount (message # rest) interactions pending =
     (if length interactions < maxCount then
        (case msg_role message of
           User \<Rightarrow>
             recentLoop maxCount rest
               (case pending of
                  Some um \<Rightarrow> \<lparr> userMessage = um, aiMessage = None \<rparr> # interactions
                | None \<Rightarrow> interactions)
               (Some message)
         | Assistant \<Rightarrow>
             (case pending of
                Some um \<Rightarrow>
                  recentLoop maxCount rest
                    (\<lparr> userMessage = um, aiMessage = Some message \<rparr> # interactions) None
              | None \<Rightarrow> recentLoop maxCount rest interactions pending))
      else (interactions, pending))"

definition getRecentInteractions :: "ConversationMessage list \<Rightarrow> nat \<Rightarrow> Interaction list" where
  "getRecentInteractions msgs maxCount =
     (case recentLoop maxCount (rev msgs) [] None of
        (interactions, pending) \<Rightarrow>
          take maxCount
            (case pending of
               Some um \<Rightarrow>
                 if length interactions < maxCount
                 then \<lparr> userMessage = um, aiMessage = None \<rparr> # interactions
                 else interactions
             | None \<Rightarrow> interactions))"

subsection \<open>Helpers of the digest\<close>

text \<open>What the rendering takes from its host: the clock (the \<open>k\<close>-th reading of
  \<open>Date.now()\<close> during one rendering), the locale's rendering of a time of day, and the
  two regular-expression tests of \<open>analyzeUserPreferences\<close>, on the lower-cased
  content.\<close>

record Host =
  clock :: "nat \<Rightarrow> int"
  toLocaleTimeString :: "int \<Rightarrow> string"
  matchesTargeted :: "string \<Rightarrow> bool"
  matchesComprehensive :: "string \<Rightarrow> bool"

definition nl :: string where
  "nl = [CHR 0x0A]"

definition dq :: string where
  "dq = [CHR 0x22]"

text \<open>An emoji beyond the basic plane is two code units; none of them is a
  \<^typ>\<open>char\<close>, so two placeholders stand for them.\<close>

definition emoji2 :: string where
  "emoji2 = ''??''"

text \<open>\<open>s.toLowerCase()\<close> on the code units that a \<^typ>\<open>char\<close> covers.\<close>

definition lowerChar :: "char \<Rightarrow> char" where
  "lowerChar c =
     (let n = (of_char c :: nat) in
      if (65 \<le> n \<and> n \<le> 90) \<or> (192 \<le> n \<and> n \<le> 222 \<and> n \<noteq> 215)
      then char_of (n + 32) else c)"

definition toLowerCase :: "string \<Rightarrow> string" where
  "toLowerCase s = map lowerChar s"

definition getTimeAgo :: "int \<Rightarrow> int \<Rightarrow> string" where
  "getTimeAgo now timestamp =
     (let diff = now - timestamp;
          minutes = diff div (1000 * 60)
      in if minutes < 1 then ''just now''
         else if minutes < 60 then showInt minutes @ ''m ago''
         else (let hours = minutes div 60
               in if hours < 24 then showInt hours @ ''h ago''
                  else (let days = hours div 24 in showInt days @ ''d ago'')))"

definition truncateText :: "string \<Rightarrow> nat \<Rightarrow> string" where
  "truncateText text' maxLength =
     (if length text' \<le> maxLength then text'
      else substring text' 0 (int maxLength - 3) @ ''...'')"

definition generateActionSummary :: "ConversationMessage \<Rightarrow> string" where
  "generateActionSummary aiMsg =
     (case msg_metadata aiMsg of
        None \<Rightarrow> ''Generated response''
      | Some metadata \<Rightarrow>
          (let p1 = (case md_fileCount metadata of
                       None \<Rightarrow> []
                     | Some n \<Rightarrow>
                         if n = 0 then []
                         else if n = 1 then [''Modified 1 file'']
                         else [''Modified '' @ showInt n @ '' files'']);
               p2 = (case md_componentCount metadata of
                       None \<Rightarrow> []
                     | Some n \<Rightarrow>
                         if n = 0 then []
                         else if n = 1 then [''created 1 component'']
                         else [''created '' @ showInt n @ '' components'']);
               p3 = (case md_addedPackages metadata of
                       None \<Rightarrow> []
                     | Some ps \<Rightarrow>
                         if length ps = 0 then []
                         else [''added '' @ showNat (length ps) @ '' package''
                                 @ (if length ps > 1 then ''s'' else '''')]);
               parts = p1 @ p2 @ p3
           in if length parts > 0 then join '', '' parts else ''Generated code''))"

text \<open>\<open>file.path.split('/').pop() || file.path\<close>.\<close>

definition baseName :: "string \<Rightarrow> string" where
  "baseName path = (let l = last (split CHR ''/'' path) in if l \<noteq> [] then l else path)"

definition namesWith :: "fileAction \<Rightarrow> AppliedFile list \<Rightarrow> string list" where
  "namesWith a appliedFiles = map (\<lambda>f. baseName (af_path f)) (filter (\<lambda>f. af_action f = a) appliedFiles)"

definition summarizeFileActions :: "AppliedFile list \<Rightarrow> string" where
  "summarizeFileActions appliedFiles =
     (let created = namesWith Created appliedFiles;
          modified = namesWith Modified appliedFiles;
          deleted = namesWith Deleted appliedFiles;
          s1 = (if length created > 0
                then [''created '' @ join '', '' (take 3 created)
                        @ (if length created > 3
                           then '' (+'' @ showNat (length created - 3) @ '')'' else '''')]
                else []);
          s2 = (if length modified > 0
                then [''modified '' @ join '', '' (take 3 modified)
                        @ (if length modified > 3
                           then '' (+'' @ showNat (length modified - 3) @ '')'' else '''')]
                else []);
          s3 = (if length deleted > 0 then [''deleted '' @ join '', '' deleted] else [])
      in join '', '' (s1 @ s2 @ s3))"

record UserPreferences =
  commonPatterns :: "string list"
  preferredEditStyle :: string

definition patternsOf :: "string \<Rightarrow> string list" where
  "patternsOf content =
     (if includesStr content ''hero'' then [''hero section edits''] else [])
     @ (if includesStr content ''header'' then [''header modifications''] else [])
     @ (if includesStr content ''color'' \<or> includesStr content ''style''
        then [''styling changes''] else [])
     @ (if includesStr content ''button'' then [''button updates''] else [])
     @ (if includesStr content ''animation'' then [''animation requests''] else [])"

definition analyzeUserPreferences :: "Host \<Rightarrow> ConversationMessage list \<Rightarrow> UserPreferences" where
  "analyzeUserPreferences host msgs =
     (let userMessages = filter (\<lambda>m. msg_role m = User) msgs;
          contents = map (\<lambda>m. toLowerCase (msg_content m)) userMessages;
          targetedEditCount = length (filter (matchesTargeted host) contents);
          comprehensiveEditCount = length (filter (matchesComprehensive host) contents);
          patterns = concat (map patternsOf contents)
      in \<lparr> commonPatterns = take 3 (toSet patterns),
           preferredEditStyle = (if targetedEditCount > comprehensiveEditCount
                                 then ''targeted'' else ''comprehensive'') \<rparr>)"

subsection \<open>buildConversationHistoryPrompt\<close>

text \<open>The lines that one recent interaction adds; \<open>n\<close> is the number of
  interactions and \<open>index'\<close> the position of this one.\<close>

definition interactionLines :: "Host \<Rightarrow> nat \<Rightarrow> nat \<times> Interaction \<Rightarrow> string list" where
  "interactionLines host n p =
     (case p of (index', interaction) \<Rightarrow>
        (let timeAgo = getTimeAgo (clock host index') (msg_timestamp (userMessage interaction)) in
         [nl @ ''**'' @ showNat (n - index') @ ''. User ('' @ timeAgo @ ''):** '' @ dq
            @ truncateText (msg_content (userMessage interaction)) 80 @ dq]
         @ (case aiMessage interaction of
              None \<Rightarrow> []
            | Some ai \<Rightarrow>
                [''**AI Response:** ''
                   @ (case msg_metadata ai of
                        None \<Rightarrow> generateActionSummary ai
                      | Some md \<Rightarrow> strOr (md_actionSummary md) (generateActionSummary ai))]
                @ (case msg_metadata ai of
                     None \<Rightarrow> []
                   | Some md \<Rightarrow>
                       (case md_appliedFiles md of
                          None \<Rightarrow> []
                        | Some fs \<Rightarrow>
                            if length fs \<noteq> 0
                            then [''**Files:** '' @ summarizeFileActions fs] else [])))))"

text \<open>The section on the recent conversation.\<close>

definition recentSection :: "Host \<Rightarrow> ConversationMessage list \<Rightarrow> string list" where
  "recentSection host msgs =
     (let recentInteractions = getRecentInteractions msgs 5 in
      if length recentInteractions > 0
      then [nl @ ''### Recent Conversation:'']
           @ concat (map (interactionLines host (length recentInteractions))
                       (enumerate 0 recentInteractions))
      else [])"

definition rollUp :: "string \<Rightarrow> string list \<Rightarrow> string list" where
  "rollUp label xs =
     (if length xs > 0
      then [label @ join '', '' (sliceLast 5 xs)
              @ (if length xs > 5 then '' (+'' @ showNat (length xs - 5) @ '' more)'' else '''')]
      else [])"

definition summarySection :: "SessionSummary option \<Rightarrow> string list" where
  "summarySection so =
     (case so of
        None \<Rightarrow> []
      | Some summary \<Rightarrow>
          [nl @ ''### Session Summary:'']
          @ rollUp ''**Created files:** '' (filesCreated summary)
          @ rollUp ''**Modified files:** '' (filesModified summary)
          @ rollUp ''**Components created:** '' (componentsCreated summary)
          @ (if length (packagesAdded summary) > 0
             then [''**Packages added:** '' @ join '', '' (packagesAdded summary)] else []))"

definition patternsSection :: "Host \<Rightarrow> ConversationMessage list \<Rightarrow> string list" where
  "patternsSection host msgs =
     (let userPrefs = analyzeUserPreferences host msgs in
      if length (commonPatterns userPrefs) > 0
      then [nl @ ''### User Patterns:'',
            ''**Edit style:** '' @ preferredEditStyle userPrefs,
            ''**Common requests:** '' @ join '', '' (take 3 (commonPatterns userPrefs))]
      else [])"

text \<open>The section on the recent major changes. The readings of the clock are numbered
  through one rendering: one for each recent interaction, then one for each of these
  changes; \<open>k\<close> is the number of readings taken before this section.\<close>

definition changesSection :: "Host \<Rightarrow> nat \<Rightarrow> MajorChange list \<Rightarrow> string list" where
  "changesSection host k changes =
     (let recentChanges = sliceLast 2 changes in
      if length recentChanges > 0
      then [nl @ ''### Recent Major Changes:'']
           @ map (\<lambda>(j, change).
                    ''- '' @ mc_description change @ '' (''
                      @ getTimeAgo (clock host (k + j)) (mc_timestamp change) @ '')'')
               (enumerate 0 recentChanges)
      else [])"

definition digestSections :: "Host \<Rightarrow> ConversationState \<Rightarrow> string list" where
  "digestSections host conversationState =
     (let ctx = cs_context conversationState in
      [''## '' @ emoji2 @ '' CONVERSATION MEMORY'',
       ''Session started: '' @ toLocaleTimeString host (startedAt conversationState),
       ''Total interactions: ''
         @ showNat (case sessionSummary ctx of
                      None \<Rightarrow> length (messages ctx)
                    | Some s \<Rightarrow>
                        if totalInteractions s \<noteq> 0 then totalInteractions s
                        else length (messages ctx))]
      @ recentSection host (messages ctx)
      @ summarySection (sessionSummary ctx)
      @ patternsSection host (messages ctx)
      @ (if truthyStr (currentTopic ctx)
         then [nl @ ''### Current Focus: '' @ strOr (currentTopic ctx) []] else [])
      @ changesSection host (length (getRecentInteractions (messages ctx) 5)) (majorChanges ctx))"

definition truncationNotice :: string where
  "truncationNotice = nl @ ''[Memory truncated to prevent context overflow]''"

text \<open>The limit on the total length, at the end of the function.\<close>

definition capDigest :: "string \<Rightarrow> string" where
  "capDigest result =
     (if length result > 2000 then substring result 0 2000 @ truncationNotice else result)"

definition buildConversationHistoryPrompt :: "Host \<Rightarrow> ConversationState option \<Rightarrow> string" where
  "buildConversationHistoryPrompt host conversationState =
     (case conversationState of
        None \<Rightarrow> []
      | Some st \<Rightarrow>
          if length (messages (cs_context st)) \<le> 1 then []
          else capDigest (join nl (digestSections host st)))"

section \<open>Context selection (context-selector)\<close>

subsection \<open>The manifest\<close>

text \<open>
  Modelled from the spec: the declarations of the manifest types (\<open>types/file-manifest\<close>)
  are not among the sources. The records follow the data model of the specification
  (file record, component info, component tree node, manifest), with the fields that the
  functions below read, under the names they read them by; the fields that the code tests
  before use are options. The two dictionaries of the manifest, \<open>manifest.files\<close> and
  \<open>manifest.componentTree\<close>, are given by their own properties; how the code reads them
  is \<open>getProp\<close> below.
\<close>

record ImportInfo =
  imp_source :: string
  imp_isLocal :: bool

record ComponentInfo =
  ci_name :: string
  ci_childComponents :: "string list option"

record FileInfo =
  fi_content :: string
  fi_type :: string
  fi_imports :: "ImportInfo list option"
  fi_componentInfo :: "ComponentInfo option"

record TreeNode =
  tn_file :: string
  tn_imports :: "string list"
  tn_importedBy :: "string list"

record FileManifest =
  mf_files :: "string \<rightharpoonup> FileInfo"
  mf_componentTree :: "string \<rightharpoonup> TreeNode"
  mf_entryPoint :: string

subsection \<open>Objects used as dictionaries\<close>

text \<open>
  \<open>obj[key]\<close> on a plain object yields the own property of that name if there is one.
  If there is none and the name is one that every plain object inherits from
  \<open>Object.prototype\<close>, it yields the inherited member: a function or, for
  \<open>__proto__\<close>, the prototype object. Such a member is truthy, and each property that
  the functions below read from it (\<open>imports\<close>, \<open>componentInfo\<close>, \<open>content\<close>,
  \<open>file\<close>, \<open>importedBy\<close>) is \<open>undefined\<close>. For any other name it yields
  \<open>undefined\<close>.
\<close>

definition protoNames :: "string list" where
  "protoNames =
     [''constructor'', ''hasOwnProperty'', ''isPrototypeOf'', ''propertyIsEnumerable'',
      ''toLocaleString'', ''toString'', ''valueOf'', ''__proto__'', ''__defineGetter__'',
      ''__defineSetter__'', ''__lookupGetter__'', ''__lookupSetter__'']"

datatype 'a lookup = Own 'a | Inherited | Missing

definition getProp :: "(string \<rightharpoonup> 'a) \<Rightarrow> string \<Rightarrow> 'a lookup" where
  "getProp obj key =
     (case obj key of
        Some v \<Rightarrow> Own v
      | None \<Rightarrow> if key \<in> set protoNames then Inherited else Missing)"

text \<open>A value that is a string or \<open>undefined\<close>.\<close>

datatype jsv = Str string | Undefined

text \<open>\<open>obj[key] = v\<close> on an object that has no own property \<open>__proto__\<close>, for such a
  value \<open>v\<close>: under the name \<open>__proto__\<close> the assignment reaches the inherited
  setter, which ignores a value that is not an object; under any other name it sets the
  own property.\<close>

definition setProp :: "(string \<rightharpoonup> jsv) \<Rightarrow> string \<Rightarrow> jsv \<Rightarrow> (string \<rightharpoonup> jsv)" where
  "setProp obj key v = (if key = ''__proto__'' then obj else obj(key \<mapsto> v))"

text \<open>What a function throws when it iterates over \<open>undefined\<close>.\<close>

datatype jsError = TypeError

subsection \<open>resolveImportPath\<close>

definition possibleExtensions :: "string list" where
  "possibleExtensions = [''.jsx'', ''.tsx'', ''.js'', ''.ts'']"

text \<open>One step of the loop of \<open>resolvePath\<close> over the parts of the specifier;
  \<open>parts.pop()\<close> on an empty array does nothing.\<close>

definition applyPart :: "string list \<Rightarrow> string \<Rightarrow> string list" where
  "applyPart parts part =
     (if part = ''..'' then butlast parts
      else if part \<noteq> ''.'' then parts @ [part]
      else parts)"

definition nonEmptyParts :: "string \<Rightarrow> string list" where
  "nonEmptyParts s = filter (\<lambda>p. p \<noteq> []) (split CHR ''/'' s)"

definition resolvePath :: "string \<Rightarrow> string \<Rightarrow> string" where
  "resolvePath base relative =
     ''/'' @ join ''/'' (foldl applyPart (nonEmptyParts base) (nonEmptyParts relative))"

text \<open>\<open>fromFile.substring(0, fromFile.lastIndexOf('/'))\<close>.\<close>

definition fromDirOf :: "string \<Rightarrow> string" where
  "fromDirOf fromFile = substring fromFile 0 (lastIndexOf fromFile CHR ''/'')"

definition possiblePaths :: "string \<Rightarrow> string \<Rightarrow> string list" where
  "possiblePaths fromFile importSource =
     (if endsWith importSource ''/'' then
        (let resolvedBasePath = resolvePath (fromDirOf fromFile) importSource in
         [resolvedBasePath @ ''/index.jsx'', resolvedBasePath @ ''/index.tsx'',
          resolvedBasePath @ ''/index.js'', resolvedBasePath @ ''/index.ts''])
      else
        (let resolvedPath = resolvePath (fromDirOf fromFile) importSource in
         if list_ex (\<lambda>ext. endsWith importSource ext) possibleExtensions
         then [resolvedPath]
         else map (\<lambda>ext. resolvedPath @ ext) possibleExtensions))"

text \<open>\<open>possiblePath.replace(/\<bslash>/+/g, '/')\<close>: every run of slashes becomes one.\<close>

fun normalizeSlashes :: "string \<Rightarrow> string" where
  "normalizeSlashes [] = []"
| "normalizeSlashes [x] = [x]"
| "normalizeSlashes (x # y # xs) =
     (if x = CHR ''/'' \<and> y = CHR ''/'' then normalizeSlashes (y # xs)
      else x # normalizeSlashes (y # xs))"

text \<open>The loop that returns the first path found in \<open>allFiles\<close>.\<close>

fun firstExisting :: "string list \<Rightarrow> string list \<Rightarrow> string option" where
  "firstExisting allFiles [] = None"
| "firstExisting allFiles (possiblePath # rest) =
     (let normalizedPath = normalizeSlashes possiblePath in
      if normalizedPath \<in> set allFiles then Some normalizedPath
      else firstExisting allFiles rest)"

definition resolveImportPath :: "string \<Rightarrow> string \<Rightarrow> string list \<Rightarrow> string option" where
  "resolveImportPath fromFile importSource allFiles =
     (if \<not> startsWith importSource ''.'' then None
      else firstExisting allFiles (possiblePaths fromFile importSource))"

subsection \<open>buildLocalContext\<close>

text \<open>\<open>allFiles.find(f => f.endsWith(a) || f.endsWith(b))\<close>, and the test that
  follows it: the file is kept when it was found, is not the empty string and is not
  a primary file.\<close>

definition essentialOne :: "string list \<Rightarrow> string list \<Rightarrow> string \<Rightarrow> string \<Rightarrow> string list" where
  "essentialOne primaryFiles allFiles a b =
     (case find (\<lambda>f. endsWith f a \<or> endsWith f b) allFiles of
        None \<Rightarrow> []
      | Some f \<Rightarrow> if f \<noteq> [] \<and> f \<notin> set primaryFiles then [f] else [])"

definition essentialFilesOf :: "string list \<Rightarrow> string list \<Rightarrow> string list" where
  "essentialFilesOf primaryFiles allFiles =
     essentialOne primaryFiles allFiles ''App.jsx'' ''App.tsx''
     @ essentialOne primaryFiles allFiles ''tailwind.config.js'' ''tailwind.config.ts''
     @ essentialOne primaryFiles allFiles ''index.css'' ''globals.css''"

text \<open>The body of the loop over the imports of one primary file. The set of context files
  holds strings and, as \<open>nodeStep\<close> shows, possibly \<open>undefined\<close>.\<close>

definition importStep ::
  "string list \<Rightarrow> string list \<Rightarrow> string \<Rightarrow> jsv list \<Rightarrow> ImportInfo \<Rightarrow> jsv list" where
  "importStep primaryFiles allFiles primaryFile contextFiles importInfo =
     (if imp_isLocal importInfo \<and> imp_source importInfo \<noteq> [] then
        (case resolveImportPath primaryFile (imp_source importInfo) allFiles of
           None \<Rightarrow> contextFiles
         | Some resolvedPath \<Rightarrow>
             if resolvedPath \<noteq> [] \<and> resolvedPath \<notin> set primaryFiles
             then setAdd contextFiles (Str resolvedPath)
             else contextFiles)
      else contextFiles)"

text \<open>The body of the two loops over the component names of a tree node. When the name
  finds an inherited member, the test \<open>importingNode && !primaryFiles.includes(importingNode.file)\<close>
  succeeds with \<open>importingNode.file\<close> undefined, and \<open>undefined\<close> is added to the
  set.\<close>

definition nodeStep :: "FileManifest \<Rightarrow> string list \<Rightarrow> jsv list \<Rightarrow> string \<Rightarrow> jsv list" where
  "nodeStep manifest primaryFiles contextFiles componentName =
     (case getProp (mf_componentTree manifest) componentName of
        Missing \<Rightarrow> contextFiles
      | Own node \<Rightarrow>
          if tn_file node \<notin> set primaryFiles
          then setAdd contextFiles (Str (tn_file node))
          else contextFiles
      | Inherited \<Rightarrow> setAdd contextFiles Undefined)"

text \<open>The body of the loop over the primary files. When \<open>manifest.files[primaryFile]\<close>
  finds an inherited member, its \<open>imports\<close> and \<open>componentInfo\<close> are undefined and
  nothing is done. When \<open>manifest.componentTree[componentName]\<close> finds an inherited
  member, \<open>treeNode\<close> is truthy, \<open>treeNode.importedBy\<close> is undefined and the
  \<open>for ... of\<close> over it throws.\<close>

definition primaryStep ::
  "FileManifest \<Rightarrow> string list \<Rightarrow> string list \<Rightarrow> jsv list \<Rightarrow> string \<Rightarrow> jsError + jsv list" where
  "primaryStep manifest primaryFiles allFiles contextFiles primaryFile =
     (case getProp (mf_files manifest) primaryFile of
        Missing \<Rightarrow> Inr contextFiles
      | Inherited \<Rightarrow> Inr contextFiles
      | Own fileInfo \<Rightarrow>
          (let c1 = (case fi_imports fileInfo of
                       None \<Rightarrow> contextFiles
                     | Some is \<Rightarrow> foldl (importStep primaryFiles allFiles primaryFile) contextFiles is)
           in case fi_componentInfo fileInfo of
                None \<Rightarrow> Inr c1
              | Some ci \<Rightarrow>
                  (case getProp (mf_componentTree manifest) (ci_name ci) of
                     Missing \<Rightarrow> Inr c1
                   | Inherited \<Rightarrow> Inl TypeError
                   | Own treeNode \<Rightarrow>
                       Inr (foldl (nodeStep manifest primaryFiles)
                              (foldl (nodeStep manifest primaryFiles) c1 (tn_importedBy treeNode))
                              (tn_imports treeNode)))))"

text \<open>The loop over the primary files; an exception ends it.\<close>

fun primaryLoop ::
  "FileManifest \<Rightarrow> string list \<Rightarrow> string list \<Rightarrow> jsv list \<Rightarrow> string list \<Rightarrow> jsError + jsv list" where
  "primaryLoop manifest primaryFiles allFiles contextFiles [] = Inr contextFiles"
| "primaryLoop manifest primaryFiles allFiles contextFiles (primaryFile # rest) =
     (case primaryStep manifest primaryFiles allFiles contextFiles primaryFile of
        Inl e \<Rightarrow> Inl e
      | Inr contextFiles' \<Rightarrow> primaryLoop manifest primaryFiles allFiles contextFiles' rest)"

text \<open>The result is the array that the function returns, or the exception that it
  throws. \<open>essentialFiles.includes(f)\<close> is false for \<open>undefined\<close>.\<close>

definition buildLocalContext ::
  "string list \<Rightarrow> FileManifest \<Rightarrow> string list \<Rightarrow> jsError + jsv list" where
  "buildLocalContext primaryFiles manifest allFiles =
     (let essentialFiles = map Str (essentialFilesOf primaryFiles allFiles);
          contextFiles0 = foldl setAdd [] essentialFiles
      in case primaryLoop manifest primaryFiles allFiles contextFiles0 primaryFiles of
           Inl e \<Rightarrow> Inl e
         | Inr contextFiles \<Rightarrow>
             Inr (essentialFiles @ filter (\<lambda>f. f \<notin> set essentialFiles) contextFiles))"

subsection \<open>getFileContents\<close>

text \<open>The result is the object \<open>contents\<close>, given by its own properties. When
  \<open>manifest.files[file]\<close> finds an inherited member, \<open>fileInfo\<close> is truthy and
  \<open>fileInfo.content\<close> is undefined.\<close>

definition getFileContents :: "string list \<Rightarrow> FileManifest \<Rightarrow> (string \<rightharpoonup> jsv)" where
  "getFileContents fs manifest =
     foldl (\<lambda>contents file.
              case getProp (mf_files manifest) file of
                Missing \<Rightarrow> contents
              | Own fileInfo \<Rightarrow> setProp contents file (Str (fi_content fileInfo))
              | Inherited \<Rightarrow> setProp contents file Undefined)
       Map.empty fs"

subsection \<open>formatFilesForAI\<close>

definition extensionTable :: "string \<rightharpoonup> string" where
  "extensionTable =
     [''js'' \<mapsto> ''javascript'', ''jsx'' \<mapsto> ''javascript'', ''ts'' \<mapsto> ''typescript'',
      ''tsx'' \<mapsto> ''typescript'', ''css'' \<mapsto> ''css'', ''json'' \<mapsto> ''json'']"

text \<open>\<open>mapping[ext] || ext\<close>. When \<open>ext\<close> names an inherited member of the table, the
  function returns that member, and the template literal that uses the result prints it
  as text; \<open>inheritedText\<close> is that text, which the host determines.\<close>

definition getFileExtension :: "(string \<Rightarrow> string) \<Rightarrow> string \<Rightarrow> string" where
  "getFileExtension inheritedText path =
     (let ext = last (split CHR ''.'' path) in
      case getProp extensionTable ext of
        Own l \<Rightarrow> if l \<noteq> [] then l else ext
      | Inherited \<Rightarrow> inheritedText ext
      | Missing \<Rightarrow> ext)"

definition fence :: string where
  "fence = [CHR 0x60, CHR 0x60, CHR 0x60]"

definition apostrophe :: string where
  "apostrophe = [CHR 0x27]"

definition contextMarker :: string where
  "contextMarker = nl @ ''// ... [truncated for context length]''"

definition primarySection :: "(string \<Rightarrow> string) \<Rightarrow> string \<times> string \<Rightarrow> string" where
  "primarySection inheritedText e =
     (case e of (path, content) \<Rightarrow>
        ''### '' @ path @ nl
        @ ''**IMPORTANT: This is the COMPLETE file. Your output must include EVERY line shown below, modified only where necessary.**''
        @ nl @ fence @ getFileExtension inheritedText path @ nl
        @ content @ nl
        @ fence @ nl)"

definition truncateContext :: "string \<Rightarrow> string" where
  "truncateContext content =
     (if length content > 2000 then substring content 0 2000 @ contextMarker else content)"

definition contextSection :: "(string \<Rightarrow> string) \<Rightarrow> string \<times> string \<Rightarrow> string" where
  "contextSection inheritedText e =
     (case e of (path, content) \<Rightarrow>
        ''### '' @ path @ '' (Reference Only)'' @ nl
        @ fence @ getFileExtension inheritedText path @ nl
        @ truncateContext content @ nl
        @ fence @ nl)"

text \<open>The two arguments are the entries of the two objects, in the order in which
  \<open>Object.entries\<close> yields them.\<close>

definition formatSections ::
  "(string \<Rightarrow> string) \<Rightarrow> (string \<times> string) list \<Rightarrow> (string \<times> string) list \<Rightarrow> string list" where
  "formatSections inheritedText primaryFiles contextFiles =
     [''# File Organization for Edit Request'' @ nl,
      ''The files below are organized into two categories to help you understand what to modify vs what to reference:'' @ nl,
      ''## '' @ emoji2 @ '' Files to Edit'' @ nl,
      ''**THESE are the files you should modify to fulfill the user'' @ apostrophe @ ''s request.**'' @ nl,
      emoji2 @ '' You MUST ONLY generate the files listed in this section. Do NOT generate any other files! '' @ emoji2 @ nl,
      emoji2 @ '' CRITICAL: Return the COMPLETE file - NEVER truncate with '' @ dq @ ''...'' @ dq
        @ '' or skip any lines! '' @ emoji2 @ nl,
      ''The file MUST include ALL imports, ALL functions, ALL JSX, and ALL closing tags.'' @ nl @ nl]
     @ (if length primaryFiles = 0
        then [''*No primary files identified for editing. Please analyze the request and determine which files need modification.*'' @ nl @ nl]
        else map (primarySection inheritedText) primaryFiles)
     @ (if length contextFiles > 0
        then [nl @ ''## '' @ emoji2 @ '' Context Files for Reference'' @ nl,
              ''**THESE files are provided for context and understanding relationships.**'' @ nl,
              ''- Use these to understand component APIs, import paths, and architectural patterns'' @ nl,
              ''- DO NOT modify these files unless they are explicitly mentioned in the user''
                @ apostrophe @ ''s request'' @ nl,
              ''- These files show you how components are connected and what dependencies exist'' @ nl @ nl]
             @ map (contextSection inheritedText) contextFiles
        else [])
     @ [nl @ ''## '' @ emoji2 @ '' Instructions'' @ nl,
        ''1. **Focus on '' @ dq @ ''Files to Edit'' @ dq @ ''** - These are your primary targets'' @ nl,
        ''2. **Reference '' @ dq @ ''Context Files'' @ dq @ ''** - Use these to understand relationships and APIs'' @ nl,
        ''3. **Maintain consistency** - Follow patterns shown in the context files'' @ nl,
        ''4. **Preserve existing functionality** - Only change what the user specifically requested'' @ nl]"

definition formatFilesForAI ::
  "(string \<Rightarrow> string) \<Rightarrow> (string \<times> string) list \<Rightarrow> (string \<times> string) list \<Rightarrow> string" where
  "formatFilesForAI inheritedText primaryFiles contextFiles =
     join nl (formatSections inheritedText primaryFiles contextFiles)"

section \<open>Target selection (file-search-executor)\<close>

text \<open>
  Modelled from the spec: the module \<open>file-search-executor\<close>, which defines
  \<open>selectTargetFile\<close>, is not among the sources; only its import and its call in the
  generation route are. The definitions below follow the words of the specification:
  for the single-point edit categories (update-style, fix-issue, update-component,
  remove-element) the single highest-scoring result overall is picked, ties broken by
  the earliest line number and then by the lexical order of the file paths; for the other
  categories no single point is selected, and no result at all gives nothing. Grouping
  the results by file path does not change which result is the best overall, so it is
  left out.
\<close>

datatype EditType =
  UPDATE_COMPONENT | ADD_FEATURE | FIX_ISSUE | UPDATE_STYLE | REFACTOR | FULL_REBUILD
  | ADD_DEPENDENCY | REMOVE_ELEMENT


text \<open>Modelled from the spec: the lexical order of file paths, code unit by code unit, as
  the comparison of strings in the source language has it.\<close>

fun lexLess :: "string \<Rightarrow> string \<Rightarrow> bool" where
  "lexLess [] [] = False"
| "lexLess [] (y # ys) = True"
| "lexLess (x # xs) [] = False"
| "lexLess (x # xs) (y # ys) =
     ((of_char x :: nat) < of_char y \<or> (x = y \<and> lexLess xs ys))"





section \<open>Auxiliary notions for the properties\<close>

text \<open>The order in which a summary only grows: the counter does not fall and each
  cumulative list is extended at its end.\<close>

definition summaryLe :: "SessionSummary \<Rightarrow> SessionSummary \<Rightarrow> bool" where
  "summaryLe a b =
     (totalInteractions a \<le> totalInteractions b \<and>
      prefix (filesCreated a) (filesCreated b) \<and>
      prefix (filesModified a) (filesModified b) \<and>
      prefix (packagesAdded a) (packagesAdded b) \<and>
      prefix (componentsCreated a) (componentsCreated b))"

definition cur0 :: "SessionSummary option \<Rightarrow> SessionSummary" where
  "cur0 cur = (case cur of None \<Rightarrow> emptySummary | Some s \<Rightarrow> s)"

text \<open>A fresh state, a user message and a clock, for the concrete runs below.\<close>

definition st0 :: ConversationState where
  "st0 = \<lparr> conversationId = ''conv-0'', startedAt = 0, lastUpdated = 0,
           cs_context = \<lparr> messages = [], currentTopic = None, majorChanges = [],
                          sessionSummary = None \<rparr> \<rparr>"

definition u0 :: ConversationMessage where
  "u0 = \<lparr> msg_id = ''msg-1'', msg_role = User, msg_content = ''make the header blue'',
          msg_timestamp = 1, msg_metadata = None \<rparr>"

definition clk0 :: Clock3 where
  "clk0 = \<lparr> nowId = 2, nowStamp = 2, nowUpdated = 3 \<rparr>"

definition r0 :: AiResponse where
  "r0 = \<lparr> ar_generatedCode = None,
          ar_appliedFiles = Some [\<lparr> af_path = ''src/Header.jsx'', af_action = Created,
                                     af_size = 10, af_componentName = Some ''Header'' \<rparr>],
          ar_actionSummary = None, ar_fileCount = Some 1, ar_componentCount = None,
          ar_packagesToInstall = Some [''clsx''] \<rparr>"

text \<open>A call with only a user message, a call that carries an AI result, and a state
  whose log is already over the threshold.\<close>

definition userCall :: call where
  "userCall = (clk0, u0, None)"

definition aiCall :: call where
  "aiCall = (clk0, u0, Some r0)"

definition st21 :: ConversationState where
  "st21 = st0\<lparr> cs_context := (cs_context st0)\<lparr> messages := replicate 21 u0 \<rparr> \<rparr>"

text \<open>A host, a log of two complete exchanges, and three states: one whose digest is
  long, one whose digest is short, and one with a single message but a summary, a topic
  and a major change.\<close>

definition host0 :: Host where
  "host0 = \<lparr> clock = (\<lambda>k. 120000), toLocaleTimeString = (\<lambda>t. ''10:00:00 AM''),
             matchesTargeted = (\<lambda>s. False), matchesComprehensive = (\<lambda>s. False) \<rparr>"

definition mkMsg :: "string \<Rightarrow> role \<Rightarrow> string \<Rightarrow> ConversationMessage" where
  "mkMsg i r c = \<lparr> msg_id = i, msg_role = r, msg_content = c, msg_timestamp = 0,
                   msg_metadata = None \<rparr>"

definition log4 :: "ConversationMessage list" where
  "log4 = [mkMsg ''1'' User ''add a hero'', mkMsg ''2'' Assistant ''Added the hero'',
           mkMsg ''3'' User ''make it blue'', mkMsg ''4'' Assistant ''Made it blue'']"

definition stLong :: ConversationState where
  "stLong = st0\<lparr> cs_context := (cs_context st0)\<lparr> messages := log4,
                     currentTopic := Some (replicate 3000 CHR ''a'') \<rparr> \<rparr>"

definition stOne :: ConversationState where
  "stOne = st0\<lparr> cs_context := \<lparr> messages = [u0], currentTopic = Some ''header styling'',
                     majorChanges = [\<lparr> mc_timestamp = 0, mc_description = ''Rebuilt the header'',
                                       mc_filesAffected = [''src/Header.jsx''] \<rparr>],
                     sessionSummary = Some (updateSessionSummary None r0) \<rparr> \<rparr>"

definition stShort :: ConversationState where
  "stShort = st0\<lparr> cs_context := (cs_context st0)\<lparr> messages := log4 \<rparr> \<rparr>"

text \<open>Notions and sample data for the properties of the context selection.\<close>

definition tail2 :: "string \<Rightarrow> string" where
  "tail2 s = take 2 (rev s)"

text \<open>What the loops keep true of the set of context files.\<close>

definition ctxOk :: "string list \<Rightarrow> jsv list \<Rightarrow> bool" where
  "ctxOk primaryFiles contextFiles =
     (distinct contextFiles \<and> (\<forall>f \<in> set primaryFiles. Str f \<notin> set contextFiles))"

text \<open>The primary files at which the loop of \<open>buildLocalContext\<close> throws: the file has
  a record with component info, and the component name finds no tree node of the manifest
  but an inherited member.\<close>

definition raisesAt :: "FileManifest \<Rightarrow> string \<Rightarrow> bool" where
  "raisesAt manifest primaryFile =
     (case getProp (mf_files manifest) primaryFile of
        Own fileInfo \<Rightarrow>
          (case fi_componentInfo fileInfo of
             None \<Rightarrow> False
           | Some ci \<Rightarrow>
               (case getProp (mf_componentTree manifest) (ci_name ci) of
                  Inherited \<Rightarrow> True
                | Own node \<Rightarrow> False
                | Missing \<Rightarrow> False))
      | Inherited \<Rightarrow> False
      | Missing \<Rightarrow> False)"

text \<open>Three manifests on which a name meets an inherited member: a component called
  \<open>constructor\<close> that has no tree node; a tree node that lists \<open>toString\<close> among its
  imports; and any manifest, asked for the file \<open>constructor\<close>.\<close>

definition widgetInfo :: FileInfo where
  "widgetInfo = \<lparr> fi_content = ''export default function constructor() {}'',
                  fi_type = ''component'', fi_imports = None,
                  fi_componentInfo = Some \<lparr> ci_name = ''constructor'', ci_childComponents = None \<rparr> \<rparr>"

definition throwingManifest :: FileManifest where
  "throwingManifest = \<lparr> mf_files = [''/src/Widget.jsx'' \<mapsto> widgetInfo],
                        mf_componentTree = Map.empty, mf_entryPoint = ''/src/Widget.jsx'' \<rparr>"

definition cardInfo :: FileInfo where
  "cardInfo = \<lparr> fi_content = ''export default function Card() {}'',
                fi_type = ''component'', fi_imports = None,
                fi_componentInfo = Some \<lparr> ci_name = ''Card'', ci_childComponents = None \<rparr> \<rparr>"

definition leakingManifest :: FileManifest where
  "leakingManifest =
     \<lparr> mf_files = [''/src/Card.jsx'' \<mapsto> cardInfo],
       mf_componentTree = [''Card'' \<mapsto> \<lparr> tn_file = ''/src/Card.jsx'', tn_imports = [''toString''],
                                        tn_importedBy = [] \<rparr>],
       mf_entryPoint = ''/src/Card.jsx'' \<rparr>"

definition sampleFiles :: "(string \<times> FileInfo) list" where
  "sampleFiles =
     [(''/src/App.jsx'',
       \<lparr> fi_content = ''import Header from ./components/Header'', fi_type = ''component'',
         fi_imports = Some [\<lparr> imp_source = ''./components/Header'', imp_isLocal = True \<rparr>,
                            \<lparr> imp_source = ''./components/Footer'', imp_isLocal = True \<rparr>,
                            \<lparr> imp_source = ''react'', imp_isLocal = False \<rparr>],
         fi_componentInfo = Some \<lparr> ci_name = ''App'', ci_childComponents = None \<rparr> \<rparr>),
      (''/src/components/Header.jsx'',
       \<lparr> fi_content = ''export default function Header() {}'', fi_type = ''component'',
         fi_imports = Some [\<lparr> imp_source = ''./Logo'', imp_isLocal = True \<rparr>,
                            \<lparr> imp_source = ''./Missing'', imp_isLocal = True \<rparr>,
                            \<lparr> imp_source = ''react'', imp_isLocal = False \<rparr>],
         fi_componentInfo = Some \<lparr> ci_name = ''Header'', ci_childComponents = None \<rparr> \<rparr>),
      (''/src/components/Footer.jsx'',
       \<lparr> fi_content = ''export default function Footer() {}'', fi_type = ''component'',
         fi_imports = None,
         fi_componentInfo = Some \<lparr> ci_name = ''Footer'', ci_childComponents = None \<rparr> \<rparr>),
      (''/src/components/Logo.jsx'',
       \<lparr> fi_content = ''export default function Logo() {}'', fi_type = ''component'',
         fi_imports = None,
         fi_componentInfo = Some \<lparr> ci_name = ''Logo'', ci_childComponents = None \<rparr> \<rparr>),
      (''/src/index.css'',
       \<lparr> fi_content = ''body {}'', fi_type = ''style'', fi_imports = None,
         fi_componentInfo = None \<rparr>),
      (''/tailwind.config.js'',
       \<lparr> fi_content = ''module.exports = {}'', fi_type = ''config'', fi_imports = None,
         fi_componentInfo = None \<rparr>)]"

definition sampleTree :: "(string \<times> TreeNode) list" where
  "sampleTree =
     [(''App'', \<lparr> tn_file = ''/src/App.jsx'', tn_imports = [''Header'', ''Footer''],
                 tn_importedBy = [] \<rparr>),
      (''Header'', \<lparr> tn_file = ''/src/components/Header.jsx'', tn_imports = [''Nav'', ''Footer''],
                    tn_importedBy = [''App'', ''Ghost''] \<rparr>),
      (''Footer'', \<lparr> tn_file = ''/src/components/Footer.jsx'', tn_imports = [],
                    tn_importedBy = [''App'', ''Header''] \<rparr>)]"

definition sampleManifest :: FileManifest where
  "sampleManifest = \<lparr> mf_files = map_of sampleFiles, mf_componentTree = map_of sampleTree,
                      mf_entryPoint = ''/src/App.jsx'' \<rparr>"

definition samplePrimary :: "string list" where
  "samplePrimary = [''/src/components/Header.jsx'', ''/src/Nope.jsx'']"

definition sampleAll :: "string list" where
  "sampleAll = map fst sampleFiles"

text \<open>A text that a host prints for an inherited member.\<close>

definition hostText :: "string \<Rightarrow> string" where
  "hostText name = ''function '' @ name @ ''() { [native code] }''"

definition bigBody :: string where
  "bigBody = replicate 2500 CHR ''x''"

definition samplePrimaryContents :: "(string \<times> string) list" where
  "samplePrimaryContents = [(''/src/components/Header.jsx'', bigBody)]"

definition sampleContextContents :: "(string \<times> string) list" where
  "sampleContextContents = [(''/src/App.jsx'', bigBody), (''/src/index.css'', ''body {}'')]"


section \<open>Properties of the conversation memory\<close>

subsection \<open>The session summary only grows\<close>

lemma summaryLe_refl: "summaryLe a a"
  by (simp add: summaryLe_def)

lemma summaryLe_trans: "summaryLe a b \<Longrightarrow> summaryLe b c \<Longrightarrow> summaryLe a c"
  unfolding summaryLe_def by (meson le_trans prefix_order.order_trans)

lemma applyFile_le: "summaryLe s (applyFile s f)"
  by (auto simp: summaryLe_def applyFile_def Let_def split: option.splits)

lemma applyFile_total: "totalInteractions (applyFile s f) = totalInteractions s"
  by (auto simp: applyFile_def Let_def split: option.splits)

lemma applyPackage_le: "summaryLe s (applyPackage s p)"
  by (auto simp: summaryLe_def applyPackage_def)

lemma applyPackage_total: "totalInteractions (applyPackage s p) = totalInteractions s"
  by (auto simp: applyPackage_def)

lemma foldl_applyFile_le: "summaryLe s (foldl applyFile s fs)"
proof (induction fs arbitrary: s)
  case Nil
  show ?case by (simp add: summaryLe_refl)
next
  case (Cons f fs)
  have "summaryLe s (applyFile s f)" by (rule applyFile_le)
  moreover have "summaryLe (applyFile s f) (foldl applyFile (applyFile s f) fs)"
    by (rule Cons.IH)
  ultimately show ?case by (auto intro: summaryLe_trans)
qed

lemma foldl_applyFile_total: "totalInteractions (foldl applyFile s fs) = totalInteractions s"
  by (induction fs arbitrary: s) (simp_all add: applyFile_total)

lemma foldl_applyPackage_le: "summaryLe s (foldl applyPackage s ps)"
proof (induction ps arbitrary: s)
  case Nil
  show ?case by (simp add: summaryLe_refl)
next
  case (Cons p ps)
  have "summaryLe s (applyPackage s p)" by (rule applyPackage_le)
  moreover have "summaryLe (applyPackage s p) (foldl applyPackage (applyPackage s p) ps)"
    by (rule Cons.IH)
  ultimately show ?case by (auto intro: summaryLe_trans)
qed

lemma foldl_applyPackage_total:
  "totalInteractions (foldl applyPackage s ps) = totalInteractions s"
  by (induction ps arbitrary: s) (simp_all add: applyPackage_total)

lemma updateSessionSummary_total:
  "totalInteractions (updateSessionSummary cur r) = totalInteractions (cur0 cur) + 1"
  by (simp add: updateSessionSummary_def cur0_def Let_def foldl_applyFile_total
      foldl_applyPackage_total split: option.splits)

lemma bump_le:
  "summaryLe s (s\<lparr> totalInteractions := totalInteractions s + 1, lastActionSummary := a \<rparr>)"
  by (simp add: summaryLe_def)

lemma updateSessionSummary_le: "summaryLe (cur0 cur) (updateSessionSummary cur r)"
proof -
  let ?s1 = "(cur0 cur)\<lparr> totalInteractions := totalInteractions (cur0 cur) + 1,
                 lastActionSummary := ar_actionSummary r \<rparr>"
  let ?s2 = "case ar_appliedFiles r of None \<Rightarrow> ?s1 | Some fs \<Rightarrow> foldl applyFile ?s1 fs"
  have a: "summaryLe (cur0 cur) ?s1" by (rule bump_le)
  have b: "summaryLe ?s1 ?s2"
    by (cases "ar_appliedFiles r") (simp_all add: summaryLe_refl foldl_applyFile_le)
  have e: "updateSessionSummary cur r =
      (case ar_packagesToInstall r of None \<Rightarrow> ?s2 | Some ps \<Rightarrow> foldl applyPackage ?s2 ps)"
    by (simp only: updateSessionSummary_def cur0_def Let_def)
  have c: "summaryLe ?s2 (updateSessionSummary cur r)"
    unfolding e
    by (cases "ar_packagesToInstall r") (simp_all only: option.case summaryLe_refl foldl_applyPackage_le)
  from a b c show ?thesis by (blast intro: summaryLe_trans)
qed

lemma summaryOf_update_Some:
  "summaryOf (updateConversationMemory clk st u (Some r)) =
     updateSessionSummary (sessionSummary (cs_context st)) r"
  by (simp add: summaryOf_def updateConversationMemory_def Let_def)

lemma sessionSummary_update_None:
  "sessionSummary (cs_context (updateConversationMemory clk st u None)) =
     sessionSummary (cs_context st)"
  by (simp add: updateConversationMemory_def Let_def)

lemma summaryOf_cur0: "summaryOf st = cur0 (sessionSummary (cs_context st))"
  by (simp add: summaryOf_def cur0_def)

lemma update_Some_le:
  "summaryLe (summaryOf st) (summaryOf (updateConversationMemory clk st u (Some r)))"
  by (subst summaryOf_update_Some, subst summaryOf_cur0) (rule updateSessionSummary_le)

lemma update_Some_total:
  "totalInteractions (summaryOf (updateConversationMemory clk st u (Some r))) =
     totalInteractions (summaryOf st) + 1"
  by (subst summaryOf_update_Some, subst summaryOf_cur0) (rule updateSessionSummary_total)

lemma update_None_summaryOf:
  "summaryOf (updateConversationMemory clk st u None) = summaryOf st"
  by (simp add: summaryOf_def sessionSummary_update_None)

lemma callStep_le: "summaryLe (summaryOf st) (summaryOf (callStep st c))"
proof (cases c)
  case (fields clk u r)
  show ?thesis
  proof (cases r)
    case None
    with fields show ?thesis
      by (simp add: callStep_def update_None_summaryOf summaryLe_refl)
  next
    case (Some a)
    with fields show ?thesis
      by (simp add: callStep_def update_Some_le)
  qed
qed

lemma callStep_total:
  "totalInteractions (summaryOf (callStep st c)) =
     totalInteractions (summaryOf st) + (if snd (snd c) \<noteq> None then 1 else 0)"
proof (cases c)
  case (fields clk u r)
  show ?thesis
  proof (cases r)
    case None
    with fields show ?thesis
      by (simp add: callStep_def update_None_summaryOf)
  next
    case (Some a)
    with fields show ?thesis
      by (simp add: callStep_def update_Some_total)
  qed
qed

lemma runCalls_le: "summaryLe (summaryOf st) (summaryOf (runCalls st cs))"
  unfolding runCalls_def
proof (induction cs arbitrary: st)
  case Nil
  show ?case by (simp add: summaryLe_refl)
next
  case (Cons c cs)
  have "summaryLe (summaryOf st) (summaryOf (callStep st c))" by (rule callStep_le)
  moreover have "summaryLe (summaryOf (callStep st c)) (summaryOf (foldl callStep (callStep st c) cs))"
    by (rule Cons.IH)
  ultimately show ?case by (auto intro: summaryLe_trans)
qed

lemma runCalls_total:
  "totalInteractions (summaryOf (runCalls st cs)) = totalInteractions (summaryOf st) + aiCalls cs"
  unfolding runCalls_def aiCalls_def
  by (induction cs arbitrary: st) (simp_all add: callStep_total)

text \<open>
  C3. Over every sequence of calls of \<open>updateConversationMemory\<close>, the counter
  \<open>totalInteractions\<close> rises by exactly one in a call that carries an AI result and
  stays as it is in a call with only a user message; after the whole sequence it is the
  starting value plus the number of calls with an AI result. The counter and the lists
  \<open>filesCreated\<close>, \<open>filesModified\<close>, \<open>packagesAdded\<close> and
  \<open>componentsCreated\<close> never shrink: each list after the sequence extends the list
  before it. The eviction of old messages, inside a call or at the start of a request,
  leaves the summary alone. (A state without a summary counts as the empty summary;
  the counter is an unbounded natural number.)
\<close>

theorem summary_counts_monotone:
  "totalInteractions (summaryOf (updateConversationMemory clk st u (Some r))) =
     totalInteractions (summaryOf st) + 1
   \<and> totalInteractions (summaryOf (updateConversationMemory clk st u None)) =
     totalInteractions (summaryOf st)
   \<and> totalInteractions (summaryOf (runCalls st cs)) = totalInteractions (summaryOf st) + aiCalls cs
   \<and> totalInteractions (summaryOf st) \<le> totalInteractions (summaryOf (runCalls st cs))
   \<and> prefix (filesCreated (summaryOf st)) (filesCreated (summaryOf (runCalls st cs)))
   \<and> prefix (filesModified (summaryOf st)) (filesModified (summaryOf (runCalls st cs)))
   \<and> prefix (packagesAdded (summaryOf st)) (packagesAdded (summaryOf (runCalls st cs)))
   \<and> prefix (componentsCreated (summaryOf st)) (componentsCreated (summaryOf (runCalls st cs)))
   \<and> summaryOf (trimAtRequestStart st) = summaryOf st"
proof -
  have le: "summaryLe (summaryOf st) (summaryOf (runCalls st cs))"
    by (rule runCalls_le)
  have t: "summaryOf (trimAtRequestStart st) = summaryOf st"
    by (simp add: summaryOf_def trimAtRequestStart_def)
  from le t show ?thesis
    unfolding summaryLe_def
    by (simp add: update_Some_total update_None_summaryOf runCalls_total)
qed

theorem summary_counts_monotone_witness:
  "totalInteractions (summaryOf (runCalls st0 (replicate 12 aiCall @ [userCall]))) = 12
   \<and> length (messages (cs_context (runCalls st0 (replicate 12 aiCall @ [userCall])))) = 18
   \<and> filesCreated (summaryOf (runCalls st0 (replicate 12 aiCall @ [userCall]))) = [''src/Header.jsx'']
   \<and> prefix (filesCreated (summaryOf (runCalls st0 (replicate 11 aiCall))))
        (filesCreated (summaryOf (runCalls (runCalls st0 (replicate 11 aiCall)) [aiCall, userCall])))"
proof -
  have a: "totalInteractions (summaryOf st0) = 0"
    by code_simp
  have b: "aiCalls (replicate 12 aiCall @ [userCall]) = 12"
    by code_simp
  have c: "length (messages (cs_context (runCalls st0 (replicate 12 aiCall @ [userCall])))) = 18"
    by code_simp
  have d: "filesCreated (summaryOf (runCalls st0 (replicate 12 aiCall @ [userCall]))) = [''src/Header.jsx'']"
    by code_simp
  from summary_counts_monotone [of clk0 st0 u0 r0 "replicate 12 aiCall @ [userCall]"]
    summary_counts_monotone [of clk0 "runCalls st0 (replicate 11 aiCall)" u0 r0 "[aiCall, userCall]"] a b c d
  show ?thesis by simp
qed

subsection \<open>The message log is bounded\<close>

lemma length_sliceLast: "length (sliceLast k xs) = min k (length xs)"
  by (simp add: sliceLast_def)

lemma suffix_sliceLast: "suffix (sliceLast k xs) xs"
  by (simp add: sliceLast_def suffix_drop)

lemma length_trimMessages: "length (trimMessages ms) \<le> 20"
  by (simp add: trimMessages_def length_sliceLast)

lemma trimMessages_over:
  "20 < length ms \<Longrightarrow> trimMessages ms = sliceLast 15 ms \<and> length (trimMessages ms) = 15"
  by (simp add: trimMessages_def length_sliceLast)

lemma trimMessages_under: "length ms \<le> 20 \<Longrightarrow> trimMessages ms = ms"
  by (simp add: trimMessages_def)

lemma messages_update:
  "messages (cs_context (updateConversationMemory clk st u r)) =
     trimMessages (pushed clk (messages (cs_context st)) u r)"
  by (cases r) (simp_all add: updateConversationMemory_def Let_def)

lemma messages_trimAtRequestStart:
  "messages (cs_context (trimAtRequestStart st)) = trimMessages (messages (cs_context st))"
  by (simp add: trimAtRequestStart_def)

lemma runCalls_snoc: "runCalls st (cs @ [c]) = callStep (runCalls st cs) c"
  by (simp add: runCalls_def)

lemma runCalls_take_Suc:
  "k < length cs \<Longrightarrow> runCalls st (take (Suc k) cs) = callStep (runCalls st (take k cs)) (cs ! k)"
  by (simp add: take_Suc_conv_app_nth runCalls_snoc)

lemma messages_callStep:
  "messages (cs_context (callStep st c)) =
     trimMessages (pushed (fst c) (messages (cs_context st)) (fst (snd c)) (snd (snd c)))"
  by (cases c) (simp add: callStep_def messages_update)

lemma runCalls_bounded: "cs \<noteq> [] \<Longrightarrow> length (messages (cs_context (runCalls st cs))) \<le> 20"
proof (induction cs rule: rev_induct)
  case Nil
  then show ?case by simp
next
  case (snoc c cs)
  show ?case
    by (simp only: runCalls_snoc messages_callStep length_trimMessages)
qed

text \<open>
  C2. After every call of \<open>updateConversationMemory\<close>, and after the trimming at the
  start of a generation request, a log that is longer than 20 messages is cut to exactly
  its 15 most recent messages, and a log of at most 20 is left as it is. So the log never
  holds more than 20 messages after a call, and in a sequence of appends the log holds
  exactly 15 messages right after the append that took it over the threshold.
\<close>

theorem log_truncated_beyond_20:
  "messages (cs_context (updateConversationMemory clk st u r)) =
     (if 20 < length (pushed clk (messages (cs_context st)) u r)
      then sliceLast 15 (pushed clk (messages (cs_context st)) u r)
      else pushed clk (messages (cs_context st)) u r)
   \<and> (20 < length (pushed clk (messages (cs_context st)) u r) \<longrightarrow>
        length (messages (cs_context (updateConversationMemory clk st u r))) = 15
        \<and> suffix (messages (cs_context (updateConversationMemory clk st u r)))
             (pushed clk (messages (cs_context st)) u r))
   \<and> length (messages (cs_context (updateConversationMemory clk st u r))) \<le> 20
   \<and> messages (cs_context (trimAtRequestStart st2)) =
        (if 20 < length (messages (cs_context st2))
         then sliceLast 15 (messages (cs_context st2))
         else messages (cs_context st2))
   \<and> (20 < length (messages (cs_context st2)) \<longrightarrow>
        length (messages (cs_context (trimAtRequestStart st2))) = 15
        \<and> suffix (messages (cs_context (trimAtRequestStart st2))) (messages (cs_context st2)))
   \<and> length (messages (cs_context (trimAtRequestStart st2))) \<le> 20
   \<and> (cs \<noteq> [] \<longrightarrow> length (messages (cs_context (runCalls st3 cs))) \<le> 20)
   \<and> (k < length cs \<and>
        20 < length (pushed (fst (cs ! k)) (messages (cs_context (runCalls st3 (take k cs))))
                       (fst (snd (cs ! k))) (snd (snd (cs ! k)))) \<longrightarrow>
        length (messages (cs_context (runCalls st3 (take (Suc k) cs)))) = 15)"
proof -
  let ?p = "pushed clk (messages (cs_context st)) u r"
  have a: "messages (cs_context (updateConversationMemory clk st u r)) = trimMessages ?p"
    by (rule messages_update)
  have b: "messages (cs_context (trimAtRequestStart st2)) = trimMessages (messages (cs_context st2))"
    by (rule messages_trimAtRequestStart)
  have c1: "messages (cs_context (updateConversationMemory clk st u r)) =
      (if 20 < length ?p then sliceLast 15 ?p else ?p)"
    unfolding a by (simp add: trimMessages_def)
  have c2: "20 < length ?p \<longrightarrow>
      length (messages (cs_context (updateConversationMemory clk st u r))) = 15
      \<and> suffix (messages (cs_context (updateConversationMemory clk st u r))) ?p"
    unfolding a using trimMessages_over [of ?p] suffix_sliceLast [of 15 ?p] by auto
  have c3: "length (messages (cs_context (updateConversationMemory clk st u r))) \<le> 20"
    unfolding a by (rule length_trimMessages)
  have c4: "messages (cs_context (trimAtRequestStart st2)) =
        (if 20 < length (messages (cs_context st2))
         then sliceLast 15 (messages (cs_context st2))
         else messages (cs_context st2))"
    unfolding b by (simp add: trimMessages_def)
  have c5: "20 < length (messages (cs_context st2)) \<longrightarrow>
        length (messages (cs_context (trimAtRequestStart st2))) = 15
        \<and> suffix (messages (cs_context (trimAtRequestStart st2))) (messages (cs_context st2))"
    unfolding b
    using trimMessages_over [of "messages (cs_context st2)"]
      suffix_sliceLast [of 15 "messages (cs_context st2)"] by auto
  have c6: "length (messages (cs_context (trimAtRequestStart st2))) \<le> 20"
    unfolding b by (rule length_trimMessages)
  have c7: "cs \<noteq> [] \<longrightarrow> length (messages (cs_context (runCalls st3 cs))) \<le> 20"
    by (simp add: runCalls_bounded)
  have c8: "k < length cs \<and>
        20 < length (pushed (fst (cs ! k)) (messages (cs_context (runCalls st3 (take k cs))))
                       (fst (snd (cs ! k))) (snd (snd (cs ! k)))) \<longrightarrow>
        length (messages (cs_context (runCalls st3 (take (Suc k) cs)))) = 15"
    by (simp add: runCalls_take_Suc messages_callStep trimMessages_over length_sliceLast)
  from c1 c2 c3 c4 c5 c6 c7 c8 show ?thesis by blast
qed

theorem log_truncated_beyond_20_witness:
  "20 < length (pushed clk0 (messages (cs_context (runCalls st0 (replicate 20 userCall)))) u0 None)
   \<and> length (messages (cs_context
        (updateConversationMemory clk0 (runCalls st0 (replicate 20 userCall)) u0 None))) = 15
   \<and> 20 < length (messages (cs_context st21))
   \<and> length (messages (cs_context (trimAtRequestStart st21))) = 15
   \<and> replicate 25 userCall \<noteq> []
   \<and> length (messages (cs_context (runCalls st0 (replicate 25 userCall)))) \<le> 20
   \<and> (20::nat) < length (replicate 25 userCall)
   \<and> length (messages (cs_context (runCalls st0 (take (Suc 20) (replicate 25 userCall))))) = 15"
proof -
  have h1: "20 < length (pushed clk0 (messages (cs_context (runCalls st0 (replicate 20 userCall)))) u0 None)"
    by code_simp
  have h2: "20 < length (messages (cs_context st21))"
    by code_simp
  have h3: "replicate 25 userCall \<noteq> []"
    by simp
  have h4: "(20::nat) < length (replicate 25 userCall)"
    by simp
  have h5: "20 < length (pushed (fst (replicate 25 userCall ! 20))
                 (messages (cs_context (runCalls st0 (take 20 (replicate 25 userCall)))))
                 (fst (snd (replicate 25 userCall ! 20))) (snd (snd (replicate 25 userCall ! 20))))"
    by code_simp
  from log_truncated_beyond_20 [of clk0 "runCalls st0 (replicate 20 userCall)" u0 None st21
      "replicate 25 userCall" st0 20] h1 h2 h3 h4 h5
  show ?thesis by blast
qed

subsection \<open>The digest of the conversation\<close>

lemma substring_0: "substring s 0 (int k) = take k s"
  by (simp add: substring_def Let_def min_def max_def)

lemma length_capDigest: "length (capDigest d) \<le> 2000 + length truncationNotice"
  using substring_0 [of d 2000] by (simp add: capDigest_def)

lemma capDigest_over: "2000 < length d \<Longrightarrow> capDigest d = take 2000 d @ truncationNotice"
  using substring_0 [of d 2000] by (simp add: capDigest_def)

lemma capDigest_under: "length d \<le> 2000 \<Longrightarrow> capDigest d = d"
  by (simp add: capDigest_def)

lemma length_truncationNotice: "length truncationNotice = 47"
  by (simp add: truncationNotice_def nl_def)

lemma le_length_join: "x \<in> set xs \<Longrightarrow> length x \<le> length (join sep xs)"
  by (induction sep xs rule: join.induct) auto

text \<open>
  C4. The claim reads: the recent-conversation section shows at most the 5 most recent
  interactions, each a user message paired with the assistant message that follows it in
  the log, a trailing user message without a reply being shown with no assistant side.
  The pairing of the code, run on the log user 1, assistant 2, user 3, assistant 4: the
  most recent reply (4) belongs to no pair, user 3 is paired with the reply 2 that stands
  before it, and user 1 is left without a reply. On the log user 1, assistant 2, user 3
  the trailing user message 3 is again paired with the reply 2. The bound holds: for every
  log there are at most 5 pairs.
\<close>

theorem getRecentInteractions_pairs_earlier_reply:
  "getRecentInteractions log4 5 =
     [\<lparr> userMessage = mkMsg ''1'' User ''add a hero'', aiMessage = None \<rparr>,
      \<lparr> userMessage = mkMsg ''3'' User ''make it blue'',
        aiMessage = Some (mkMsg ''2'' Assistant ''Added the hero'') \<rparr>]
   \<and> getRecentInteractions (take 3 log4) 5 =
     [\<lparr> userMessage = mkMsg ''1'' User ''add a hero'', aiMessage = None \<rparr>,
      \<lparr> userMessage = mkMsg ''3'' User ''make it blue'',
        aiMessage = Some (mkMsg ''2'' Assistant ''Added the hero'') \<rparr>]
   \<and> length (getRecentInteractions msgs 5) \<le> 5"
  by (simp add: getRecentInteractions_def log4_def mkMsg_def split: prod.splits)

text \<open>
  C6. For every conversation state the digest is at most 2000 characters long plus the
  length of the truncation notice (47), and the notice is appended exactly when the
  digest before the cut is longer than 2000 characters: then the result is its first
  2000 characters followed by the notice, otherwise the digest itself.
\<close>

theorem digest_capped:
  "length (buildConversationHistoryPrompt host cso) \<le> 2000 + length truncationNotice
   \<and> length truncationNotice = 47
   \<and> (1 < length (messages (cs_context st))
        \<and> 2000 < length (join nl (digestSections host st)) \<longrightarrow>
        buildConversationHistoryPrompt host (Some st) =
          take 2000 (join nl (digestSections host st)) @ truncationNotice)
   \<and> (1 < length (messages (cs_context st))
        \<and> length (join nl (digestSections host st)) \<le> 2000 \<longrightarrow>
        buildConversationHistoryPrompt host (Some st) = join nl (digestSections host st))"
proof -
  have a: "length (buildConversationHistoryPrompt host cso) \<le> 2000 + length truncationNotice"
  proof (cases cso)
    case None
    then show ?thesis by (simp add: buildConversationHistoryPrompt_def)
  next
    case (Some s)
    then show ?thesis
      using length_capDigest [of "join nl (digestSections host s)"]
      by (simp add: buildConversationHistoryPrompt_def)
  qed
  have b: "1 < length (messages (cs_context st)) \<Longrightarrow>
      buildConversationHistoryPrompt host (Some st) = capDigest (join nl (digestSections host st))"
    by (simp add: buildConversationHistoryPrompt_def)
  from a b show ?thesis
    by (simp add: capDigest_over capDigest_under length_truncationNotice)
qed

theorem digest_capped_witness:
  "1 < length (messages (cs_context stLong))
   \<and> 2000 < length (join nl (digestSections host0 stLong))
   \<and> length (buildConversationHistoryPrompt host0 (Some stLong)) = 2047
   \<and> 1 < length (messages (cs_context stShort))
   \<and> length (join nl (digestSections host0 stShort)) \<le> 2000
   \<and> buildConversationHistoryPrompt host0 (Some stShort) = join nl (digestSections host0 stShort)"
proof -
  have h1: "1 < length (messages (cs_context stLong))" by code_simp
  have h2: "2000 < length (join nl (digestSections host0 stLong))" by code_simp
  have h3: "1 < length (messages (cs_context stShort))" by code_simp
  have h4: "length (join nl (digestSections host0 stShort)) \<le> 2000" by code_simp
  from digest_capped [of host0 "Some stLong" stLong] h1 h2
  have "buildConversationHistoryPrompt host0 (Some stLong) =
          take 2000 (join nl (digestSections host0 stLong)) @ truncationNotice"
    by blast
  with h2 have l: "length (buildConversationHistoryPrompt host0 (Some stLong)) = 2047"
    by (simp add: length_truncationNotice)
  from digest_capped [of host0 "Some stShort" stShort] h3 h4
  have s: "buildConversationHistoryPrompt host0 (Some stShort) = join nl (digestSections host0 stShort)"
    by blast
  from h1 h2 h3 h4 l s show ?thesis by blast
qed

text \<open>
  C10. \<open>buildConversationHistoryPrompt\<close> returns the empty string when there is no
  conversation state, and when the log holds at most one message, whatever the summary,
  the topic and the log of major changes hold.
\<close>

theorem empty_digest_for_short_log:
  "buildConversationHistoryPrompt host None = []
   \<and> (length (messages (cs_context st)) \<le> 1 \<longrightarrow>
        buildConversationHistoryPrompt host (Some st) = [])"
  by (simp add: buildConversationHistoryPrompt_def)

theorem empty_digest_for_short_log_witness:
  "length (messages (cs_context stOne)) \<le> 1
   \<and> totalInteractions (summaryOf stOne) = 1
   \<and> currentTopic (cs_context stOne) = Some ''header styling''
   \<and> length (majorChanges (cs_context stOne)) = 1
   \<and> buildConversationHistoryPrompt host0 (Some stOne) = []
   \<and> buildConversationHistoryPrompt host0 None = []"
proof -
  have h: "length (messages (cs_context stOne)) \<le> 1" by code_simp
  have a: "totalInteractions (summaryOf stOne) = 1" by code_simp
  have b: "currentTopic (cs_context stOne) = Some ''header styling''" by code_simp
  have c: "length (majorChanges (cs_context stOne)) = 1" by code_simp
  from empty_digest_for_short_log [of host0 stOne] h a b c show ?thesis by blast
qed

section \<open>Properties of the context selection\<close>

lemma endsWith_suffix: "endsWith s p \<longleftrightarrow> suffix p s"
proof
  assume "endsWith s p"
  then have "s = take (length s - length p) s @ p"
    by (metis append_take_drop_id endsWith_def)
  then show "suffix p s" by (metis suffixI)
next
  assume "suffix p s"
  then obtain zs where "s = zs @ p" by (auto simp: suffix_def)
  then show "endsWith s p" by (simp add: endsWith_def)
qed

lemma endsWith_tail2:
  assumes "endsWith s p" and "2 \<le> length p"
  shows "take 2 (rev s) = take 2 (rev p)"
proof -
  from assms(1) obtain zs where "s = zs @ p"
    by (auto simp: endsWith_suffix suffix_def)
  with assms(2) show ?thesis by simp
qed

lemma tail2_app: "endsWith s ''App.jsx'' \<or> endsWith s ''App.tsx'' \<Longrightarrow> tail2 s = ''xs''"
  unfolding tail2_def by (auto dest!: endsWith_tail2)

lemma tail2_tailwind:
  "endsWith s ''tailwind.config.js'' \<or> endsWith s ''tailwind.config.ts''
     \<Longrightarrow> tail2 s = ''sj'' \<or> tail2 s = ''st''"
  unfolding tail2_def by (auto dest!: endsWith_tail2)

lemma tail2_css: "endsWith s ''index.css'' \<or> endsWith s ''globals.css'' \<Longrightarrow> tail2 s = ''ss''"
  unfolding tail2_def by (auto dest!: endsWith_tail2)

lemma find_SomeD: "find P xs = Some x \<Longrightarrow> P x \<and> x \<in> set xs"
  by (auto simp: find_Some_iff)

lemma essentialOne_mem:
  assumes "x \<in> set (essentialOne primaryFiles allFiles a b)"
  shows "x \<notin> set primaryFiles \<and> (endsWith x a \<or> endsWith x b)"
proof (cases "find (\<lambda>f. endsWith f a \<or> endsWith f b) allFiles")
  case None
  with assms show ?thesis by (simp add: essentialOne_def)
next
  case (Some f)
  with assms have "x = f" and "f \<notin> set primaryFiles"
    by (auto simp: essentialOne_def split: if_splits)
  with find_SomeD [OF Some] show ?thesis by simp
qed

lemma essentialOne_distinct: "distinct (essentialOne primaryFiles allFiles a b)"
  by (simp add: essentialOne_def split: option.splits)

lemma essentialFilesOf_not_primary:
  "x \<in> set (essentialFilesOf primaryFiles allFiles) \<Longrightarrow> x \<notin> set primaryFiles"
  by (auto simp: essentialFilesOf_def dest: essentialOne_mem)

lemma essentialFilesOf_distinct: "distinct (essentialFilesOf primaryFiles allFiles)"
proof -
  let ?A = "essentialOne primaryFiles allFiles ''App.jsx'' ''App.tsx''"
  let ?T = "essentialOne primaryFiles allFiles ''tailwind.config.js'' ''tailwind.config.ts''"
  let ?C = "essentialOne primaryFiles allFiles ''index.css'' ''globals.css''"
  have a: "\<And>x. x \<in> set ?A \<Longrightarrow> tail2 x = ''xs''"
    using essentialOne_mem tail2_app by blast
  have t: "\<And>x. x \<in> set ?T \<Longrightarrow> tail2 x = ''sj'' \<or> tail2 x = ''st''"
    using essentialOne_mem tail2_tailwind by blast
  have c: "\<And>x. x \<in> set ?C \<Longrightarrow> tail2 x = ''ss''"
    using essentialOne_mem tail2_css by blast
  have at: "set ?A \<inter> set ?T = {}"
  proof (rule ccontr)
    assume "set ?A \<inter> set ?T \<noteq> {}"
    then obtain x where "x \<in> set ?A" and "x \<in> set ?T" by blast
    with a t show False by fastforce
  qed
  have ac: "set ?A \<inter> set ?C = {}"
  proof (rule ccontr)
    assume "set ?A \<inter> set ?C \<noteq> {}"
    then obtain x where "x \<in> set ?A" and "x \<in> set ?C" by blast
    with a c show False by fastforce
  qed
  have tc: "set ?T \<inter> set ?C = {}"
  proof (rule ccontr)
    assume "set ?T \<inter> set ?C \<noteq> {}"
    then obtain x where "x \<in> set ?T" and "x \<in> set ?C" by blast
    with t c show False by fastforce
  qed
  from at ac tc show ?thesis
    by (simp add: essentialFilesOf_def essentialOne_distinct Int_Un_distrib)
qed

lemma ctxOk_setAdd_Str: "ctxOk p c \<Longrightarrow> x \<notin> set p \<Longrightarrow> ctxOk p (setAdd c (Str x))"
  by (auto simp: ctxOk_def setAdd_def)

lemma ctxOk_setAdd_Undefined: "ctxOk p c \<Longrightarrow> ctxOk p (setAdd c Undefined)"
  by (auto simp: ctxOk_def setAdd_def)

lemma ctxOk_foldl:
  assumes step: "\<And>c x. ctxOk p c \<Longrightarrow> ctxOk p (f c x)"
  shows "ctxOk p c \<Longrightarrow> ctxOk p (foldl f c xs)"
  by (induction xs arbitrary: c) (simp_all add: step)

lemma ctxOk_importStep: "ctxOk p c \<Longrightarrow> ctxOk p (importStep p a pf c i)"
  by (auto simp: importStep_def ctxOk_setAdd_Str split: option.splits)

lemma ctxOk_nodeStep: "ctxOk p c \<Longrightarrow> ctxOk p (nodeStep m p c n)"
  by (auto simp: nodeStep_def ctxOk_setAdd_Str ctxOk_setAdd_Undefined split: lookup.splits)

lemma ctxOk_primaryStep:
  "ctxOk p c \<Longrightarrow> primaryStep m p a c pf = Inr c' \<Longrightarrow> ctxOk p c'"
  unfolding primaryStep_def Let_def
  by (auto intro!: ctxOk_foldl ctxOk_importStep ctxOk_nodeStep split: option.splits lookup.splits)

lemma primaryStep_outcome:
  "primaryStep m p a c pf = Inl TypeError \<and> raisesAt m pf
   \<or> (\<exists>c'. primaryStep m p a c pf = Inr c') \<and> \<not> raisesAt m pf"
proof (cases "getProp (mf_files m) pf")
  case (Own fileInfo)
  show ?thesis
  proof (cases "fi_componentInfo fileInfo")
    case None
    with Own show ?thesis by (simp add: raisesAt_def primaryStep_def Let_def)
  next
    case (Some ci)
    with Own show ?thesis
      by (cases "getProp (mf_componentTree m) (ci_name ci)")
         (simp_all add: raisesAt_def primaryStep_def Let_def)
  qed
next
  case Inherited
  then show ?thesis by (simp add: raisesAt_def primaryStep_def)
next
  case Missing
  then show ?thesis by (simp add: raisesAt_def primaryStep_def)
qed

lemma primaryStep_raises: "raisesAt m pf \<Longrightarrow> primaryStep m p a c pf = Inl TypeError"
  using primaryStep_outcome [of m p a c pf] by blast

lemma primaryStep_returns: "\<not> raisesAt m pf \<Longrightarrow> \<exists>c'. primaryStep m p a c pf = Inr c'"
  using primaryStep_outcome [of m p a c pf] by blast

lemma ctxOk_primaryLoop:
  "ctxOk p c \<Longrightarrow> primaryLoop m p a c pfs = Inr c' \<Longrightarrow> ctxOk p c'"
proof (induction pfs arbitrary: c)
  case Nil
  then show ?case by simp
next
  case (Cons pf pfs)
  from Cons.prems(2) obtain c1 where s: "primaryStep m p a c pf = Inr c1"
    and l: "primaryLoop m p a c1 pfs = Inr c'"
    by (auto split: sum.splits)
  from Cons.prems(1) s have "ctxOk p c1" by (rule ctxOk_primaryStep)
  then show ?case using l by (rule Cons.IH)
qed

lemma primaryLoop_raises:
  "\<exists>pf \<in> set pfs. raisesAt m pf \<Longrightarrow> primaryLoop m p a c pfs = Inl TypeError"
proof (induction pfs arbitrary: c)
  case Nil
  then show ?case by simp
next
  case (Cons pf pfs)
  show ?case
  proof (cases "raisesAt m pf")
    case True
    then show ?thesis by (simp add: primaryStep_raises)
  next
    case False
    then obtain c1 where s: "primaryStep m p a c pf = Inr c1"
      using primaryStep_returns by blast
    from False Cons.prems have "\<exists>pf \<in> set pfs. raisesAt m pf" by auto
    then have "primaryLoop m p a c1 pfs = Inl TypeError" by (rule Cons.IH)
    with s show ?thesis by simp
  qed
qed

lemma primaryLoop_returns:
  "\<forall>pf \<in> set pfs. \<not> raisesAt m pf \<Longrightarrow> \<exists>c'. primaryLoop m p a c pfs = Inr c'"
proof (induction pfs arbitrary: c)
  case Nil
  then show ?case by simp
next
  case (Cons pf pfs)
  then obtain c1 where s: "primaryStep m p a c pf = Inr c1"
    using primaryStep_returns [of m pf p a c] by auto
  from Cons.prems have "\<forall>pf \<in> set pfs. \<not> raisesAt m pf" by simp
  then obtain c' where "primaryLoop m p a c1 pfs = Inr c'"
    using Cons.IH by blast
  with s show ?case by simp
qed

lemma ctxOk_essential: "ctxOk p (foldl setAdd [] (map Str (essentialFilesOf p a)))"
proof -
  have "\<And>c. ctxOk p c \<Longrightarrow> set xs \<inter> set p = {} \<Longrightarrow> ctxOk p (foldl setAdd c (map Str xs))" for xs
    by (induction xs) (simp_all add: ctxOk_setAdd_Str)
  moreover have "ctxOk p []" by (simp add: ctxOk_def)
  moreover have "set (essentialFilesOf p a) \<inter> set p = {}"
    using essentialFilesOf_not_primary by blast
  ultimately show ?thesis by blast
qed

lemma firstExisting_find:
  "firstExisting allFiles ps = find (\<lambda>p. p \<in> set allFiles) (map normalizeSlashes ps)"
  by (induction ps) (simp_all add: Let_def)

lemma firstExisting_None:
  "firstExisting allFiles ps = None \<longleftrightarrow> (\<forall>q \<in> set ps. normalizeSlashes q \<notin> set allFiles)"
  by (simp add: firstExisting_find find_None_iff)

lemma firstExisting_mem: "firstExisting allFiles ps = Some p \<Longrightarrow> p \<in> set allFiles"
  by (simp add: firstExisting_find) (blast dest: find_SomeD)

lemma possiblePaths_dir:
  "endsWith src ''/'' \<Longrightarrow>
     possiblePaths f src = map (\<lambda>ext. resolvePath (fromDirOf f) src @ ''/index'' @ ext) possibleExtensions"
  by (simp add: possiblePaths_def possibleExtensions_def Let_def)

lemma possiblePaths_asis:
  "\<not> endsWith src ''/'' \<Longrightarrow> list_ex (endsWith src) possibleExtensions \<Longrightarrow>
     possiblePaths f src = [resolvePath (fromDirOf f) src]"
  by (simp add: possiblePaths_def Let_def)

lemma possiblePaths_ext:
  "\<not> endsWith src ''/'' \<Longrightarrow> \<not> list_ex (endsWith src) possibleExtensions \<Longrightarrow>
     possiblePaths f src = map (\<lambda>ext. resolvePath (fromDirOf f) src @ ext) possibleExtensions"
  by (simp add: possiblePaths_def Let_def)

lemma possiblePaths_D: "possiblePaths ''/a/b/C.jsx'' ''./D'' =
    [''/a/b/D.jsx'', ''/a/b/D.tsx'', ''/a/b/D.js'', ''/a/b/D.ts'']"
  by code_simp

lemma possiblePaths_E: "possiblePaths ''/a/b/C.jsx'' ''../E'' =
    [''/a/E.jsx'', ''/a/E.tsx'', ''/a/E.js'', ''/a/E.ts'']"
  by code_simp

lemma resolve_D:
  "''/a/b/D.jsx'' \<in> set allFiles \<Longrightarrow>
     resolveImportPath ''/a/b/C.jsx'' ''./D'' allFiles = Some ''/a/b/D.jsx''"
  by (simp add: resolveImportPath_def possiblePaths_D startsWith_def)

lemma join_mem_split: "x \<in> set xs \<Longrightarrow> \<exists>pre post. join sep xs = pre @ x @ post"
proof (induction sep xs rule: join.induct)
  case (1 sep)
  then show ?case by simp
next
  case (2 sep y)
  then have "join sep [y] = [] @ x @ []" by simp
  then show ?case by blast
next
  case (3 sep y z zs)
  show ?case
  proof (cases "x = y")
    case True
    then have "join sep (y # z # zs) = [] @ x @ (sep @ join sep (z # zs))" by simp
    then show ?thesis by blast
  next
    case False
    with 3 obtain pre post where "join sep (z # zs) = pre @ x @ post" by auto
    then have "join sep (y # z # zs) = (y @ sep @ pre) @ x @ post" by simp
    then show ?thesis by blast
  qed
qed

lemma primarySection_in:
  "e \<in> set primaryFiles \<Longrightarrow>
     primarySection t e \<in> set (formatSections t primaryFiles contextFiles)"
  by (auto simp: formatSections_def)

lemma contextSection_in:
  "e \<in> set contextFiles \<Longrightarrow>
     contextSection t e \<in> set (formatSections t primaryFiles contextFiles)"
  by (auto simp: formatSections_def)

lemma getProp_Missing: "obj key = None \<Longrightarrow> key \<notin> set protoNames \<Longrightarrow> getProp obj key = Missing"
  by (simp add: getProp_def)

lemma missing_is_skipped:
  "getProp (mf_files m) pf = Missing \<Longrightarrow> primaryStep m p a c pf = Inr c"
  "getProp (mf_componentTree m) n = Missing \<Longrightarrow> nodeStep m p c n = c"
  "resolveImportPath pf (imp_source i) a = None \<Longrightarrow> importStep p a pf c i = c"
  by (simp_all add: primaryStep_def nodeStep_def importStep_def)

lemma truncateContext_over:
  "2000 < length c \<Longrightarrow> truncateContext c = take 2000 c @ contextMarker"
  using substring_0 [of c 2000] by (simp add: truncateContext_def)

lemma truncateContext_under: "length c \<le> 2000 \<Longrightarrow> truncateContext c = c"
  by (simp add: truncateContext_def)

text \<open>
  C1. For every list of primary files, every manifest and every list of all paths, the
  sequence that \<open>buildLocalContext\<close> returns holds no entry twice and holds no path
  that is one of the primary files. A sequence is returned exactly when no primary file
  has a component whose name finds an inherited member in place of a tree node;
  otherwise the call throws and returns no sequence.
\<close>

theorem buildLocalContext_distinct_not_primary:
  "(buildLocalContext primaryFiles manifest allFiles = Inr r \<longrightarrow>
      distinct r \<and> (\<forall>f \<in> set primaryFiles. Str f \<notin> set r))
   \<and> ((\<forall>pf \<in> set primaryFiles. \<not> raisesAt manifest pf) \<longrightarrow>
        (\<exists>r'. buildLocalContext primaryFiles manifest allFiles = Inr r'))
   \<and> ((\<exists>pf \<in> set primaryFiles. raisesAt manifest pf) \<longrightarrow>
        buildLocalContext primaryFiles manifest allFiles = Inl TypeError)"
proof -
  let ?e = "map Str (essentialFilesOf primaryFiles allFiles)"
  let ?l = "primaryLoop manifest primaryFiles allFiles (foldl setAdd [] ?e) primaryFiles"
  have b: "buildLocalContext primaryFiles manifest allFiles =
      (case ?l of Inl e \<Rightarrow> Inl e
       | Inr c \<Rightarrow> Inr (?e @ filter (\<lambda>f. f \<notin> set ?e) c))"
    by (simp only: buildLocalContext_def Let_def)
  have de: "distinct ?e"
    by (simp add: distinct_map essentialFilesOf_distinct inj_on_def)
  have ne: "\<forall>f \<in> set primaryFiles. Str f \<notin> set ?e"
    using essentialFilesOf_not_primary [of _ primaryFiles allFiles] by auto
  have c1: "buildLocalContext primaryFiles manifest allFiles = Inr r \<longrightarrow>
      distinct r \<and> (\<forall>f \<in> set primaryFiles. Str f \<notin> set r)"
  proof
    assume "buildLocalContext primaryFiles manifest allFiles = Inr r"
    with b obtain c where l: "?l = Inr c" and r: "r = ?e @ filter (\<lambda>f. f \<notin> set ?e) c"
      by (auto split: sum.splits)
    have "ctxOk primaryFiles c"
      using ctxOk_essential l by (rule ctxOk_primaryLoop)
    with de ne show "distinct r \<and> (\<forall>f \<in> set primaryFiles. Str f \<notin> set r)"
      unfolding r ctxOk_def by auto
  qed
  have c2: "(\<forall>pf \<in> set primaryFiles. \<not> raisesAt manifest pf) \<longrightarrow>
        (\<exists>r'. buildLocalContext primaryFiles manifest allFiles = Inr r')"
  proof
    assume "\<forall>pf \<in> set primaryFiles. \<not> raisesAt manifest pf"
    then obtain c where "?l = Inr c"
      using primaryLoop_returns by blast
    with b show "\<exists>r'. buildLocalContext primaryFiles manifest allFiles = Inr r'" by simp
  qed
  have c3: "(\<exists>pf \<in> set primaryFiles. raisesAt manifest pf) \<longrightarrow>
        buildLocalContext primaryFiles manifest allFiles = Inl TypeError"
  proof
    assume "\<exists>pf \<in> set primaryFiles. raisesAt manifest pf"
    then have "?l = Inl TypeError" by (rule primaryLoop_raises)
    with b show "buildLocalContext primaryFiles manifest allFiles = Inl TypeError" by simp
  qed
  from c1 c2 c3 show ?thesis by blast
qed

theorem buildLocalContext_distinct_not_primary_witness:
  "buildLocalContext samplePrimary sampleManifest sampleAll =
     Inr [Str ''/src/App.jsx'', Str ''/tailwind.config.js'', Str ''/src/index.css'',
          Str ''/src/components/Logo.jsx'', Str ''/src/components/Footer.jsx'']
   \<and> distinct [Str ''/src/App.jsx'', Str ''/tailwind.config.js'', Str ''/src/index.css'',
          Str ''/src/components/Logo.jsx'', Str ''/src/components/Footer.jsx'']
   \<and> Str ''/src/components/Header.jsx'' \<notin> set [Str ''/src/App.jsx'', Str ''/tailwind.config.js'',
          Str ''/src/index.css'', Str ''/src/components/Logo.jsx'', Str ''/src/components/Footer.jsx'']
   \<and> (\<exists>r'. buildLocalContext samplePrimary sampleManifest sampleAll = Inr r')
   \<and> raisesAt throwingManifest ''/src/Widget.jsx''
   \<and> buildLocalContext [''/src/Widget.jsx''] throwingManifest [''/src/Widget.jsx''] = Inl TypeError"
proof -
  note t = buildLocalContext_distinct_not_primary
  have v: "buildLocalContext samplePrimary sampleManifest sampleAll =
     Inr [Str ''/src/App.jsx'', Str ''/tailwind.config.js'', Str ''/src/index.css'',
          Str ''/src/components/Logo.jsx'', Str ''/src/components/Footer.jsx'']"
    by code_simp
  have h: "\<forall>pf \<in> set samplePrimary. \<not> raisesAt sampleManifest pf"
    by code_simp
  have m: "''/src/components/Header.jsx'' \<in> set samplePrimary"
    by (simp add: samplePrimary_def)
  have x: "raisesAt throwingManifest ''/src/Widget.jsx''"
    by code_simp
  from t [of samplePrimary sampleManifest sampleAll
      "[Str ''/src/App.jsx'', Str ''/tailwind.config.js'', Str ''/src/index.css'',
        Str ''/src/components/Logo.jsx'', Str ''/src/components/Footer.jsx'']"] v h m
  have w1: "distinct [Str ''/src/App.jsx'', Str ''/tailwind.config.js'', Str ''/src/index.css'',
          Str ''/src/components/Logo.jsx'', Str ''/src/components/Footer.jsx'']"
    and w2: "Str ''/src/components/Header.jsx'' \<notin> set [Str ''/src/App.jsx'',
          Str ''/tailwind.config.js'', Str ''/src/index.css'', Str ''/src/components/Logo.jsx'',
          Str ''/src/components/Footer.jsx'']"
    and w3: "\<exists>r'. buildLocalContext samplePrimary sampleManifest sampleAll = Inr r'"
    by blast+
  from t [of "[''/src/Widget.jsx'']" throwingManifest "[''/src/Widget.jsx'']"] x
  have w4: "buildLocalContext [''/src/Widget.jsx''] throwingManifest [''/src/Widget.jsx''] = Inl TypeError"
    by simp
  from v w1 w2 w3 x w4 show ?thesis by (intro conjI)
qed

text \<open>
  C5, as amended. \<open>resolveImportPath\<close> returns nothing for a specifier that does not
  begin with a dot. For one that does, the specifier is resolved against the directory of
  the importing file (\<open>..\<close> drops the last segment, \<open>.\<close> changes nothing, any other
  segment is added), and the candidates are: for a specifier that ends in a slash, the
  four index files, with the extensions in the order .jsx, .tsx, .js, .ts; for a specifier
  that already ends in one of these four extensions, the resolved path itself and nothing
  else; for any other specifier, the resolved path followed by each of the four
  extensions, in the same order. The result is the first candidate (runs of slashes made
  one) that is in \<open>allPaths\<close>, and nothing when no candidate is. From
  \<open>/a/b/C.jsx\<close>, the specifier \<open>./D\<close> yields \<open>/a/b/D.jsx\<close> whenever that path
  is present, and \<open>../E\<close> is looked for as \<open>/a/E\<close> with the four extensions.
\<close>

theorem resolveImportPath_candidates:
  "(\<not> startsWith importSource ''.'' \<longrightarrow> resolveImportPath fromFile importSource allFiles = None)
   \<and> (startsWith importSource ''.'' \<longrightarrow>
        resolveImportPath fromFile importSource allFiles =
          find (\<lambda>p. p \<in> set allFiles) (map normalizeSlashes (possiblePaths fromFile importSource)))
   \<and> (endsWith importSource ''/'' \<longrightarrow>
        possiblePaths fromFile importSource =
          map (\<lambda>ext. resolvePath (fromDirOf fromFile) importSource @ ''/index'' @ ext)
            [''.jsx'', ''.tsx'', ''.js'', ''.ts''])
   \<and> (\<not> endsWith importSource ''/''
        \<and> (endsWith importSource ''.jsx'' \<or> endsWith importSource ''.tsx''
             \<or> endsWith importSource ''.js'' \<or> endsWith importSource ''.ts'') \<longrightarrow>
        possiblePaths fromFile importSource = [resolvePath (fromDirOf fromFile) importSource])
   \<and> (\<not> endsWith importSource ''/''
        \<and> \<not> (endsWith importSource ''.jsx'' \<or> endsWith importSource ''.tsx''
               \<or> endsWith importSource ''.js'' \<or> endsWith importSource ''.ts'') \<longrightarrow>
        possiblePaths fromFile importSource =
          map (\<lambda>ext. resolvePath (fromDirOf fromFile) importSource @ ext)
            [''.jsx'', ''.tsx'', ''.js'', ''.ts''])
   \<and> resolvePath base relative =
        ''/'' @ join ''/'' (foldl applyPart (nonEmptyParts base) (nonEmptyParts relative))
   \<and> applyPart parts ''..'' = butlast parts
   \<and> applyPart parts ''.'' = parts
   \<and> (part \<noteq> ''..'' \<and> part \<noteq> ''.'' \<longrightarrow> applyPart parts part = parts @ [part])
   \<and> (resolveImportPath fromFile importSource allFiles = Some p \<longrightarrow> p \<in> set allFiles)
   \<and> (startsWith importSource ''.''
        \<and> (\<forall>q \<in> set (possiblePaths fromFile importSource). normalizeSlashes q \<notin> set allFiles) \<longrightarrow>
        resolveImportPath fromFile importSource allFiles = None)
   \<and> (''/a/b/D.jsx'' \<in> set allFiles \<longrightarrow>
        resolveImportPath ''/a/b/C.jsx'' ''./D'' allFiles = Some ''/a/b/D.jsx'')
   \<and> possiblePaths ''/a/b/C.jsx'' ''../E'' = [''/a/E.jsx'', ''/a/E.tsx'', ''/a/E.js'', ''/a/E.ts'']"
proof -
  have ex: "list_ex (endsWith importSource) possibleExtensions \<longleftrightarrow>
      (endsWith importSource ''.jsx'' \<or> endsWith importSource ''.tsx''
       \<or> endsWith importSource ''.js'' \<or> endsWith importSource ''.ts'')"
    by (simp add: possibleExtensions_def)
  have c1: "\<not> startsWith importSource ''.'' \<longrightarrow> resolveImportPath fromFile importSource allFiles = None"
    by (simp add: resolveImportPath_def)
  have c2: "startsWith importSource ''.'' \<longrightarrow>
        resolveImportPath fromFile importSource allFiles =
          find (\<lambda>p. p \<in> set allFiles) (map normalizeSlashes (possiblePaths fromFile importSource))"
    by (simp add: resolveImportPath_def firstExisting_find)
  have c3: "endsWith importSource ''/'' \<longrightarrow>
        possiblePaths fromFile importSource =
          map (\<lambda>ext. resolvePath (fromDirOf fromFile) importSource @ ''/index'' @ ext)
            [''.jsx'', ''.tsx'', ''.js'', ''.ts'']"
    using possiblePaths_dir [of importSource fromFile] by (simp add: possibleExtensions_def)
  have c4: "\<not> endsWith importSource ''/''
        \<and> (endsWith importSource ''.jsx'' \<or> endsWith importSource ''.tsx''
             \<or> endsWith importSource ''.js'' \<or> endsWith importSource ''.ts'') \<longrightarrow>
        possiblePaths fromFile importSource = [resolvePath (fromDirOf fromFile) importSource]"
    using possiblePaths_asis [of importSource fromFile] ex by blast
  have c5: "\<not> endsWith importSource ''/''
        \<and> \<not> (endsWith importSource ''.jsx'' \<or> endsWith importSource ''.tsx''
               \<or> endsWith importSource ''.js'' \<or> endsWith importSource ''.ts'') \<longrightarrow>
        possiblePaths fromFile importSource =
          map (\<lambda>ext. resolvePath (fromDirOf fromFile) importSource @ ext)
            [''.jsx'', ''.tsx'', ''.js'', ''.ts'']"
    using possiblePaths_ext [of importSource fromFile] ex
    unfolding possibleExtensions_def by blast
  have c6: "resolvePath base relative =
        ''/'' @ join ''/'' (foldl applyPart (nonEmptyParts base) (nonEmptyParts relative))"
    by (simp add: resolvePath_def)
  have c7: "applyPart parts ''..'' = butlast parts" "applyPart parts ''.'' = parts"
    "part \<noteq> ''..'' \<and> part \<noteq> ''.'' \<longrightarrow> applyPart parts part = parts @ [part]"
    by (simp_all add: applyPart_def)
  have c8: "resolveImportPath fromFile importSource allFiles = Some p \<longrightarrow> p \<in> set allFiles"
    by (auto simp: resolveImportPath_def dest: firstExisting_mem split: if_splits)
  have c9: "startsWith importSource ''.''
        \<and> (\<forall>q \<in> set (possiblePaths fromFile importSource). normalizeSlashes q \<notin> set allFiles) \<longrightarrow>
        resolveImportPath fromFile importSource allFiles = None"
    by (simp add: resolveImportPath_def firstExisting_None)
  have c10: "''/a/b/D.jsx'' \<in> set allFiles \<longrightarrow>
        resolveImportPath ''/a/b/C.jsx'' ''./D'' allFiles = Some ''/a/b/D.jsx''"
    by (simp add: resolve_D)
  note c11 = possiblePaths_E
  from c1 c2 c3 c4 c5 c6 c7 c8 c9 c10 c11 show ?thesis by blast
qed

theorem resolveImportPath_candidates_witness:
  "resolveImportPath ''/a/b/C.jsx'' ''react'' [''/a/b/react.jsx''] = None
   \<and> resolveImportPath ''/a/b/C.jsx'' ''../E'' [''/a/E.ts'', ''/a/E.js''] = Some ''/a/E.js''
   \<and> resolveImportPath ''/a/b/C.jsx'' ''../E'' [''/a/b/E.jsx''] = None
   \<and> possiblePaths ''/a/b/C.jsx'' ''./ui/'' =
        [''/a/b/ui/index.jsx'', ''/a/b/ui/index.tsx'', ''/a/b/ui/index.js'', ''/a/b/ui/index.ts'']
   \<and> possiblePaths ''/a/b/C.jsx'' ''./D.jsx'' = [''/a/b/D.jsx'']
   \<and> possiblePaths ''/a/b/C.jsx'' ''./D'' =
        [''/a/b/D.jsx'', ''/a/b/D.tsx'', ''/a/b/D.js'', ''/a/b/D.ts'']
   \<and> resolveImportPath ''/a/b/C.jsx'' ''./D'' [''/a/b/D.tsx'', ''/a/b/D.jsx''] = Some ''/a/b/D.jsx''"
proof -
  note t = resolveImportPath_candidates
  have n1: "\<not> startsWith ''react'' ''.''" by code_simp
  have s1: "startsWith ''../E'' ''.''" by code_simp
  have d1: "endsWith ''./ui/'' ''/''" by code_simp
  have d2: "\<not> endsWith ''./D.jsx'' ''/'' \<and> (endsWith ''./D.jsx'' ''.jsx'' \<or> endsWith ''./D.jsx'' ''.tsx''
             \<or> endsWith ''./D.jsx'' ''.js'' \<or> endsWith ''./D.jsx'' ''.ts'')" by code_simp
  have d3: "\<not> endsWith ''./D'' ''/'' \<and> \<not> (endsWith ''./D'' ''.jsx'' \<or> endsWith ''./D'' ''.tsx''
             \<or> endsWith ''./D'' ''.js'' \<or> endsWith ''./D'' ''.ts'')" by code_simp
  have r1: "resolvePath (fromDirOf ''/a/b/C.jsx'') ''./ui/'' = ''/a/b/ui''" by code_simp
  have r2: "resolvePath (fromDirOf ''/a/b/C.jsx'') ''./D.jsx'' = ''/a/b/D.jsx''" by code_simp
  have r3: "resolvePath (fromDirOf ''/a/b/C.jsx'') ''./D'' = ''/a/b/D''" by code_simp
  have f1: "find (\<lambda>p. p \<in> set [''/a/E.ts'', ''/a/E.js''])
      (map normalizeSlashes (possiblePaths ''/a/b/C.jsx'' ''../E'')) = Some ''/a/E.js''"
    by code_simp
  have f2: "startsWith ''../E'' ''.'' \<and> (\<forall>q \<in> set (possiblePaths ''/a/b/C.jsx'' ''../E'').
      normalizeSlashes q \<notin> set [''/a/b/E.jsx''])"
    by code_simp
  have m: "''/a/b/D.jsx'' \<in> set [''/a/b/D.tsx'', ''/a/b/D.jsx'']" by simp
  from t [of "''react''" "''/a/b/C.jsx''" "[''/a/b/react.jsx'']"] n1
  have w1: "resolveImportPath ''/a/b/C.jsx'' ''react'' [''/a/b/react.jsx''] = None" by blast
  have "resolveImportPath ''/a/b/C.jsx'' ''../E'' [''/a/E.ts'', ''/a/E.js''] =
      find (\<lambda>p. p \<in> set [''/a/E.ts'', ''/a/E.js''])
        (map normalizeSlashes (possiblePaths ''/a/b/C.jsx'' ''../E''))"
    by (rule mp [OF t [of "''../E''" "''/a/b/C.jsx''" "[''/a/E.ts'', ''/a/E.js'']",
          THEN conjunct2, THEN conjunct1] s1])
  then have w2: "resolveImportPath ''/a/b/C.jsx'' ''../E'' [''/a/E.ts'', ''/a/E.js''] = Some ''/a/E.js''"
    using f1 by (rule trans)
  from t [of "''../E''" "''/a/b/C.jsx''" "[''/a/b/E.jsx'']"] f2
  have w3: "resolveImportPath ''/a/b/C.jsx'' ''../E'' [''/a/b/E.jsx''] = None"
    by blast
  from t [of "''./ui/''" "''/a/b/C.jsx''" "[]"] d1
  have w4: "possiblePaths ''/a/b/C.jsx'' ''./ui/'' =
        [''/a/b/ui/index.jsx'', ''/a/b/ui/index.tsx'', ''/a/b/ui/index.js'', ''/a/b/ui/index.ts'']"
    by (simp add: r1)
  from t [of "''./D.jsx''" "''/a/b/C.jsx''" "[]"] d2
  have w5: "possiblePaths ''/a/b/C.jsx'' ''./D.jsx'' = [''/a/b/D.jsx'']"
    by (simp add: r2)
  from t [of "''./D''" "''/a/b/C.jsx''" "[]"] d3
  have w6: "possiblePaths ''/a/b/C.jsx'' ''./D'' =
        [''/a/b/D.jsx'', ''/a/b/D.tsx'', ''/a/b/D.js'', ''/a/b/D.ts'']"
    by (simp add: r3)
  from t [of "''./D''" "''/a/b/C.jsx''" "[''/a/b/D.tsx'', ''/a/b/D.jsx'']"] m
  have w7: "resolveImportPath ''/a/b/C.jsx'' ''./D'' [''/a/b/D.tsx'', ''/a/b/D.jsx''] = Some ''/a/b/D.jsx''"
    by blast
  from w1 w2 w3 w4 w5 w6 w7 show ?thesis by (intro conjI)
qed

text \<open>
  C5 as first stated has every relative specifier tried with the four extensions. For the
  specifier \<open>./D.jsx\<close> from \<open>/a/b/C.jsx\<close> the code returns \<open>/a/b/D.jsx\<close>, which is
  none of the four paths with an extension appended, and it returns nothing when only
  \<open>/a/b/D.jsx.jsx\<close> is present.
\<close>

theorem resolveImportPath_keeps_given_extension:
  "resolveImportPath ''/a/b/C.jsx'' ''./D.jsx'' [''/a/b/D.jsx''] = Some ''/a/b/D.jsx''
   \<and> startsWith ''./D.jsx'' ''.''
   \<and> ''/a/b/D.jsx'' \<notin> set
        [normalizeSlashes (resolvePath (fromDirOf ''/a/b/C.jsx'') ''./D.jsx'' @ ''.jsx''),
         normalizeSlashes (resolvePath (fromDirOf ''/a/b/C.jsx'') ''./D.jsx'' @ ''.tsx''),
         normalizeSlashes (resolvePath (fromDirOf ''/a/b/C.jsx'') ''./D.jsx'' @ ''.js''),
         normalizeSlashes (resolvePath (fromDirOf ''/a/b/C.jsx'') ''./D.jsx'' @ ''.ts'')]
   \<and> resolveImportPath ''/a/b/C.jsx'' ''./D.jsx'' [''/a/b/D.jsx.jsx''] = None"
  by code_simp

text \<open>
  C7. In the text that \<open>formatFilesForAI\<close> builds, every primary file has its section
  with its whole body between the fences, whatever its length; every context file has its
  section with, between the fences, its body unchanged when that is at most 2000
  characters long, and otherwise its first 2000 characters followed by the marker
  \<open>// ... [truncated for context length]\<close> on a line of its own. This holds for every
  text that the host prints for an inherited member in the place of a fence label.
\<close>

theorem primary_in_full_context_truncated:
  "(\<forall>e \<in> set primaryFiles. \<exists>pre post.
        formatFilesForAI inheritedText primaryFiles contextFiles = pre @ primarySection inheritedText e @ post)
   \<and> primarySection inheritedText (path, content) =
        ''### '' @ path @ nl
        @ ''**IMPORTANT: This is the COMPLETE file. Your output must include EVERY line shown below, modified only where necessary.**''
        @ nl @ fence @ getFileExtension inheritedText path @ nl @ content @ nl @ fence @ nl
   \<and> (\<forall>e \<in> set contextFiles. \<exists>pre post.
        formatFilesForAI inheritedText primaryFiles contextFiles = pre @ contextSection inheritedText e @ post)
   \<and> contextSection inheritedText (path, content) =
        ''### '' @ path @ '' (Reference Only)'' @ nl @ fence @ getFileExtension inheritedText path @ nl
        @ (if 2000 < length content then take 2000 content @ contextMarker else content)
        @ nl @ fence @ nl
   \<and> contextMarker = nl @ ''// ... [truncated for context length]''"
proof -
  have p: "\<forall>e \<in> set primaryFiles. \<exists>pre post.
        formatFilesForAI inheritedText primaryFiles contextFiles = pre @ primarySection inheritedText e @ post"
    unfolding formatFilesForAI_def
    by (blast intro: join_mem_split primarySection_in)
  have c: "\<forall>e \<in> set contextFiles. \<exists>pre post.
        formatFilesForAI inheritedText primaryFiles contextFiles = pre @ contextSection inheritedText e @ post"
    unfolding formatFilesForAI_def
    by (blast intro: join_mem_split contextSection_in)
  have ps: "primarySection inheritedText (path, content) =
        ''### '' @ path @ nl
        @ ''**IMPORTANT: This is the COMPLETE file. Your output must include EVERY line shown below, modified only where necessary.**''
        @ nl @ fence @ getFileExtension inheritedText path @ nl @ content @ nl @ fence @ nl"
    by (simp add: primarySection_def)
  have cs: "contextSection inheritedText (path, content) =
        ''### '' @ path @ '' (Reference Only)'' @ nl @ fence @ getFileExtension inheritedText path @ nl
        @ (if 2000 < length content then take 2000 content @ contextMarker else content)
        @ nl @ fence @ nl"
    by (simp add: contextSection_def truncateContext_over truncateContext_under)
  from p c ps cs show ?thesis by (simp add: contextMarker_def)
qed

theorem primary_in_full_context_truncated_witness:
  "2000 < length bigBody
   \<and> (\<exists>pre post. formatFilesForAI hostText samplePrimaryContents sampleContextContents =
         pre @ primarySection hostText (''/src/components/Header.jsx'', bigBody) @ post)
   \<and> primarySection hostText (''/src/components/Header.jsx'', bigBody) =
        ''### '' @ ''/src/components/Header.jsx'' @ nl
        @ ''**IMPORTANT: This is the COMPLETE file. Your output must include EVERY line shown below, modified only where necessary.**''
        @ nl @ fence @ ''javascript'' @ nl @ bigBody @ nl @ fence @ nl
   \<and> (\<exists>pre post. formatFilesForAI hostText samplePrimaryContents sampleContextContents =
         pre @ contextSection hostText (''/src/App.jsx'', bigBody) @ post)
   \<and> contextSection hostText (''/src/App.jsx'', bigBody) =
        ''### '' @ ''/src/App.jsx'' @ '' (Reference Only)'' @ nl @ fence @ ''javascript'' @ nl
        @ (take 2000 bigBody @ contextMarker) @ nl @ fence @ nl
   \<and> (\<exists>pre post. formatFilesForAI hostText samplePrimaryContents sampleContextContents =
         pre @ contextSection hostText (''/src/index.css'', ''body {}'') @ post)
   \<and> contextSection hostText (''/src/index.css'', ''body {}'') =
        ''### '' @ ''/src/index.css'' @ '' (Reference Only)'' @ nl @ fence @ ''css'' @ nl
        @ ''body {}'' @ nl @ fence @ nl"
proof -
  note t1 = primary_in_full_context_truncated [where inheritedText = hostText
      and primaryFiles = samplePrimaryContents and contextFiles = sampleContextContents
      and path = "''/src/components/Header.jsx''" and content = bigBody]
  note t2 = primary_in_full_context_truncated [where inheritedText = hostText
      and primaryFiles = samplePrimaryContents and contextFiles = sampleContextContents
      and path = "''/src/App.jsx''" and content = bigBody]
  note t3 = primary_in_full_context_truncated [where inheritedText = hostText
      and primaryFiles = samplePrimaryContents and contextFiles = sampleContextContents
      and path = "''/src/index.css''" and content = "''body {}''"]
  have m1: "(''/src/components/Header.jsx'', bigBody) \<in> set samplePrimaryContents"
    by (simp add: samplePrimaryContents_def)
  have m2: "(''/src/App.jsx'', bigBody) \<in> set sampleContextContents"
    by (simp add: sampleContextContents_def)
  have m3: "(''/src/index.css'', ''body {}'') \<in> set sampleContextContents"
    by (simp add: sampleContextContents_def)
  have x1: "getFileExtension hostText ''/src/components/Header.jsx'' = ''javascript''" by code_simp
  have x2: "getFileExtension hostText ''/src/App.jsx'' = ''javascript''" by code_simp
  have x3: "getFileExtension hostText ''/src/index.css'' = ''css''" by code_simp
  have l1: "2000 < length bigBody"
    by (simp add: bigBody_def)
  have l2: "\<not> 2000 < length ''body {}''" by simp
  have a: "\<exists>pre post. formatFilesForAI hostText samplePrimaryContents sampleContextContents =
         pre @ primarySection hostText (''/src/components/Header.jsx'', bigBody) @ post"
    by (rule bspec [OF t1 [THEN conjunct1] m1])
  have a': "primarySection hostText (''/src/components/Header.jsx'', bigBody) =
        ''### '' @ ''/src/components/Header.jsx'' @ nl
        @ ''**IMPORTANT: This is the COMPLETE file. Your output must include EVERY line shown below, modified only where necessary.**''
        @ nl @ fence @ ''javascript'' @ nl @ bigBody @ nl @ fence @ nl"
    using t1 [THEN conjunct2, THEN conjunct1] by (simp only: x1)
  have b: "\<exists>pre post. formatFilesForAI hostText samplePrimaryContents sampleContextContents =
         pre @ contextSection hostText (''/src/App.jsx'', bigBody) @ post"
    by (rule bspec [OF t2 [THEN conjunct2, THEN conjunct2, THEN conjunct1] m2])
  have b': "contextSection hostText (''/src/App.jsx'', bigBody) =
        ''### '' @ ''/src/App.jsx'' @ '' (Reference Only)'' @ nl @ fence @ ''javascript'' @ nl
        @ (take 2000 bigBody @ contextMarker) @ nl @ fence @ nl"
    using t2 [THEN conjunct2, THEN conjunct2, THEN conjunct2, THEN conjunct1] l1
    by (simp only: x2 if_True)
  have c: "\<exists>pre post. formatFilesForAI hostText samplePrimaryContents sampleContextContents =
         pre @ contextSection hostText (''/src/index.css'', ''body {}'') @ post"
    by (rule bspec [OF t3 [THEN conjunct2, THEN conjunct2, THEN conjunct1] m3])
  have c': "contextSection hostText (''/src/index.css'', ''body {}'') =
        ''### '' @ ''/src/index.css'' @ '' (Reference Only)'' @ nl @ fence @ ''css'' @ nl
        @ ''body {}'' @ nl @ fence @ nl"
    using t3 [THEN conjunct2, THEN conjunct2, THEN conjunct2, THEN conjunct1] l2
    by (simp only: x3 if_False)
  from l1 a a' b b' c c' show ?thesis by (intro conjI)
qed

text \<open>
  C8. The claim reads: a lookup that finds nothing is passed over and never raises;
  \<open>getFileContents\<close> returns a mapping with exactly the requested paths that the
  manifest has, and \<open>buildLocalContext\<close> passes over a primary file without a record, a
  component name without a tree node and an import that does not resolve. The code, on
  names that a plain object inherits: for a primary file whose component is called
  \<open>constructor\<close>, in a manifest whose component tree has no such node,
  \<open>buildLocalContext\<close> throws a \<open>TypeError\<close>; for a tree node that lists
  \<open>toString\<close> among its imports, with no such node in the tree, it returns a sequence
  that holds \<open>undefined\<close>; and \<open>getFileContents\<close>, asked for the file
  \<open>constructor\<close> that the manifest does not have, returns a mapping with the key
  \<open>constructor\<close>.
\<close>

theorem inherited_members_are_not_skipped:
  "mf_componentTree throwingManifest ''constructor'' = None
   \<and> buildLocalContext [''/src/Widget.jsx''] throwingManifest [''/src/Widget.jsx''] = Inl TypeError
   \<and> mf_componentTree leakingManifest ''toString'' = None
   \<and> buildLocalContext [''/src/Card.jsx''] leakingManifest [''/src/Card.jsx''] = Inr [Undefined]
   \<and> mf_files sampleManifest ''constructor'' = None
   \<and> getFileContents [''constructor''] sampleManifest ''constructor'' = Some Undefined"
  by code_simp

section \<open>Properties of the target selection\<close>

lemma lexLess_irrefl: "\<not> lexLess s s"
  by (induction s) simp_all

lemma lexLess_trans: "lexLess a b \<Longrightarrow> lexLess b c \<Longrightarrow> lexLess a c"
proof (induction a b arbitrary: c rule: lexLess.induct)
  case 1
  then show ?case by simp
next
  case (2 y ys)
  then show ?case by (cases c) simp_all
next
  case (3 x xs)
  then show ?case by simp
next
  case (4 x xs y ys)
  then show ?case by (cases c) auto
qed

lemma lexLess_asym: "lexLess a b \<Longrightarrow> \<not> lexLess b a"
  using lexLess_trans lexLess_irrefl by blast










end
